theory Spec2Isabelle
  imports Complex_Main
begin

section \<open>Locomotion state machine (class EnhancedFSM)\<close>

text \<open>
  The state keys are the string values of the source's \<open>STATES\<close> enum object. The FSM
  stores the key of the current state (\<open>_currentKey\<close>, \<open>null\<close> before the first
  transition), the registered state classes (\<open>_states\<close>, here the list of registered
  keys), the bounded history and, as \<open>errorLog\<close>, the calls made to
  \<open>logger.logError\<close> (the controller always constructs the FSM with the global logger).
\<close>

type_synonym state_key = string

definition IDLE :: state_key where "IDLE = ''idle''"
definition WALK :: state_key where "WALK = ''walk''"
definition CHARGE :: state_key where "CHARGE = ''charge''"
definition LEAP :: state_key where "LEAP = ''leap''"
definition FALL :: state_key where "FALL = ''fall''"
definition DASH :: state_key where "DASH = ''dash''"
definition DEAD :: state_key where "DEAD = ''dead''"

definition STATES :: "state_key list" where
  "STATES = [IDLE, WALK, CHARGE, LEAP, FALL, DASH, DEAD]"

definition validTransitions :: "(state_key \<times> state_key list) list" where
  "validTransitions =
    [(IDLE,   [WALK, CHARGE, FALL, DASH, DEAD]),
     (WALK,   [IDLE, CHARGE, FALL, DASH, DEAD]),
     (CHARGE, [LEAP, IDLE, FALL, DEAD]),
     (LEAP,   [FALL, DASH, IDLE, DEAD]),
     (FALL,   [IDLE, WALK, DASH, DEAD]),
     (DASH,   [IDLE, WALK, LEAP, FALL, DEAD]),
     (DEAD,   [IDLE])]"

datatype log_entry =
    InvalidStateKey state_key
  | InvalidTransition string state_key string
  | TransitionError
  | Recovered
  | RecoveryFailed

text \<open>
  What the body of a transition (\<open>exit\<close> of the old state, construction and \<open>enter\<close>
  of the new one) can do besides returning: throw before \<open>_currentKey\<close> is assigned,
  or throw after it. The flag says whether \<open>enter\<close> of the idle state throws again
  during \<open>_recoverToSafeState\<close>.
\<close>

datatype fault = NoThrow | ThrowsBeforeKey bool | ThrowsAfterKey bool

record fsm =
  states :: "state_key list"
  currentKey :: "state_key option"
  stateHistory :: "(state_key \<times> string) list"
  errorLog :: "log_entry list"

definition maxHistory :: nat where "maxHistory = 10"

definition newFSM :: fsm where
  "newFSM = \<lparr>states = [], currentKey = None, stateHistory = [], errorLog = []\<rparr>"

definition addState :: "fsm \<Rightarrow> state_key \<Rightarrow> fsm" where
  "addState f name = f\<lparr>states := states f @ [name]\<rparr>"

text \<open>\<open>CharacterController._setupFSM\<close>: one state class per key of \<open>STATES\<close>.\<close>

definition setupFSM :: fsm where
  "setupFSM = foldl addState newFSM STATES"

text \<open>
  \<open>_canTransitionKey\<close>: a falsy source key (\<open>null\<close>, or the empty string) allows
  everything; a key without a row in the table allows nothing.
\<close>

definition allowedFrom :: "state_key \<Rightarrow> state_key list" where
  "allowedFrom k = (case map_of validTransitions k of None \<Rightarrow> [] | Some allowed \<Rightarrow> allowed)"

definition canTransitionKey :: "state_key option \<Rightarrow> state_key \<Rightarrow> bool" where
  "canTransitionKey fromKey toKey =
    (case fromKey of
       None \<Rightarrow> True
     | Some k \<Rightarrow> if k = [] then True else toKey \<in> set (allowedFrom k))"

definition recoverToSafeState :: "fsm \<Rightarrow> bool \<Rightarrow> fsm" where
  "recoverToSafeState f idleEnterThrows =
    (if IDLE \<in> set (states f)
     then f\<lparr>currentKey := Some IDLE,
            errorLog := errorLog f @ [if idleEnterThrows then RecoveryFailed else Recovered]\<rparr>
     else f)"

definition pushHistory :: "(state_key \<times> string) list \<Rightarrow> state_key \<times> string \<Rightarrow> (state_key \<times> string) list" where
  "pushHistory h e = (let h' = h @ [e] in if length h' > maxHistory then tl h' else h')"

definition prevLabel :: "state_key option \<Rightarrow> string" where
  "prevLabel k = (case k of None \<Rightarrow> ''null'' | Some s \<Rightarrow> if s = [] then ''null'' else s)"

definition setState :: "fsm \<Rightarrow> state_key \<Rightarrow> string \<Rightarrow> fault \<Rightarrow> fsm \<times> bool" where
  "setState f name reason flt =
    (if name \<notin> set (states f) then
       (f\<lparr>errorLog := errorLog f @ [InvalidStateKey name]\<rparr>, False)
     else if currentKey f = Some name then (f, False)
     else if \<not> canTransitionKey (currentKey f) name then
       (f\<lparr>errorLog := errorLog f @ [InvalidTransition (prevLabel (currentKey f)) name reason]\<rparr>, False)
     else
       (case flt of
          NoThrow \<Rightarrow>
            (f\<lparr>currentKey := Some name,
               stateHistory := pushHistory (stateHistory f) (name, reason)\<rparr>, True)
        | ThrowsBeforeKey again \<Rightarrow>
            (recoverToSafeState (f\<lparr>errorLog := errorLog f @ [TransitionError]\<rparr>) again, False)
        | ThrowsAfterKey again \<Rightarrow>
            (recoverToSafeState
               (f\<lparr>currentKey := Some name, errorLog := errorLog f @ [TransitionError]\<rparr>) again,
             False)))"

text \<open>A sequence of \<open>setState\<close> calls, each with its target, reason and fault.\<close>

definition runFSM :: "fsm \<Rightarrow> (state_key \<times> string \<times> fault) list \<Rightarrow> fsm" where
  "runFSM f calls = foldl (\<lambda>g (name, reason, flt). fst (setState g name reason flt)) f calls"


text \<open>Invariant of the key: no state yet, or one of the registered keys.\<close>

definition keyOk :: "fsm \<Rightarrow> bool" where
  "keyOk f = (currentKey f = None \<or> (\<exists>k \<in> set (states f). currentKey f = Some k))"

section \<open>Configuration (the parts of CONFIG the locomotion core and the track read)\<close>

text \<open>
  JavaScript numbers are modelled as exact reals: rounding of IEEE doubles is not part
  of the model.
\<close>

record config =
  quickJump_cost :: real
  quickJump_verticalForce :: real
  quickJump_tapThreshold :: real
  airDash_forceMultiplier :: real
  airDash_downwardVelocityCap :: real
  chargeLeap_maxChargeTime :: real
  chargeLeap_staminaDrainPerSecond :: real
  chargeLeap_minChargeEnergy :: real
  chargeLeap_minVertical :: real
  chargeLeap_maxVertical :: real
  chargeLeap_minForward :: real
  chargeLeap_maxForward :: real
  chargeLeap_horizontalMultiplierUsesCamera :: bool
  player_height :: real
  player_radius :: real
  player_mass :: real
  player_maxHealth :: real
  player_maxSprint :: real
  player_sprintRegenRate :: real
  player_sprintRegenDelay :: real
  lava_surfaceY :: real
  lava_killOnContact :: bool
  jump_coyoteTime :: real
  jump_minGroundTime :: real
  track_segmentsToGenerateAhead :: int
  track_segmentsToKeepBehind :: int
  gameplay_minDashEnergy :: real

definition CONFIG :: config where
  "CONFIG = \<lparr>
     quickJump_cost = 5,
     quickJump_verticalForce = 11,
     quickJump_tapThreshold = 2 / 10,
     airDash_forceMultiplier = 3 / 10,
     airDash_downwardVelocityCap = - 5,
     chargeLeap_maxChargeTime = 15 / 10,
     chargeLeap_staminaDrainPerSecond = 50,
     chargeLeap_minChargeEnergy = 5,
     chargeLeap_minVertical = 6,
     chargeLeap_maxVertical = 20,
     chargeLeap_minForward = 6,
     chargeLeap_maxForward = 30,
     chargeLeap_horizontalMultiplierUsesCamera = True,
     player_height = 8 / 10,
     player_radius = 3 / 10,
     player_mass = 80,
     player_maxHealth = 100,
     player_maxSprint = 100,
     player_sprintRegenRate = 60,
     player_sprintRegenDelay = 75 / 100,
     lava_surfaceY = - 50,
     lava_killOnContact = True,
     jump_coyoteTime = 15 / 100,
     jump_minGroundTime = 5 / 100,
     track_segmentsToGenerateAhead = 8,
     track_segmentsToKeepBehind = 4,
     gameplay_minDashEnergy = 10 \<rparr>"

section \<open>Character controller\<close>

record vec3 =
  vec_x :: real
  vec_y :: real
  vec_z :: real

text \<open>
  The body of the falling platform the player rides: a stale handle makes every call on
  it throw; a live one answers \<open>linvel().y\<close> and \<open>mass()\<close> (absent on some engine
  versions, hence optional).
\<close>

datatype platform_body = StaleBody | LiveBody real "real option"

text \<open>Fields of a \<open>ChargeState\<close> and of a \<open>DashState\<close> instance.\<close>

record charge_data =
  previousState :: "state_key option"
  startedGrounded :: bool
  chargeTime :: real
  energyConsumed :: real
  startEnergy :: real
  maxPossibleEnergy :: real

record dash_data =
  dashTimer :: real
  dashDuration :: real
  dash_staminaUsed :: real

text \<open>The \<open>params\<close> argument of \<open>setState\<close>: a reason and, for a dash, the stamina used.\<close>

record params =
  p_reason :: string
  p_staminaUsed :: "real option"

text \<open>
  The controller: energy is the field \<open>sprint\<close>. \<open>keys\<close> is \<open>inputManager.keys\<close>,
  \<open>linvel\<close> and \<open>translation\<close> are the physics body's velocity and position,
  \<open>modelForward\<close> is the model's facing direction and \<open>cameraFlatDir\<close> the flattened
  camera direction (both normalised by the rendering library). The calls to
  \<open>uiManager.showEnergyInsufficient\<close>, the impulses given to a falling platform
  and the reasons passed to \<open>die\<close> are recorded in lists. Animation, sound, particles
  and the coalesced energy logging are not modelled.
\<close>

record controller =
  sprint :: real
  health :: real
  sprintRegenTimer :: real
  isGrounded :: bool
  coyoteTime :: real
  groundTime :: real
  linvel :: vec3
  translation :: vec3
  keys :: "string \<Rightarrow> bool"
  modelForward :: vec3
  cameraFlatDir :: vec3
  onFallingPlatform :: bool
  fallingPlatformBody :: "platform_body option"
  fsm :: fsm
  charge :: charge_data
  dash :: dash_data
  chargePreview :: real
  energyInsufficient :: "string list"
  platformImpulses :: "vec3 list"
  deathReasons :: "string list"

definition consumeStamina :: "controller \<Rightarrow> real \<Rightarrow> controller" where
  "consumeStamina c amount = c\<lparr>sprint := max 0 (sprint c - amount), sprintRegenTimer := 0\<rparr>"

definition restoreDashEnergy :: "config \<Rightarrow> controller \<Rightarrow> real \<Rightarrow> controller" where
  "restoreDashEnergy cfg c amount = c\<lparr>sprint := min (player_maxSprint cfg) (sprint c + amount)\<rparr>"

definition updateSprint :: "config \<Rightarrow> controller \<Rightarrow> real \<Rightarrow> controller" where
  "updateSprint cfg c dt =
    (if isGrounded c then
       (let c1 = c\<lparr>sprintRegenTimer := sprintRegenTimer c + dt\<rparr> in
        if sprintRegenTimer c1 \<ge> player_sprintRegenDelay cfg then
          (let added = min (player_maxSprint cfg - sprint c1) (player_sprintRegenRate cfg * dt)
           in c1\<lparr>sprint := min (player_maxSprint cfg) (sprint c1 + added)\<rparr>)
        else c1)
     else c)"

definition canBeginCharge :: "config \<Rightarrow> controller \<Rightarrow> bool" where
  "canBeginCharge cfg c =
    (if sprint c < quickJump_cost cfg then False
     else (isGrounded c \<and> groundTime c > jump_minGroundTime cfg) \<or> coyoteTime c > 0)"

subsection \<open>Entering and leaving states\<close>

definition ChargeState_enter :: "config \<Rightarrow> controller \<Rightarrow> state_key option \<Rightarrow> controller" where
  "ChargeState_enter cfg c prev =
    c\<lparr>charge := \<lparr>previousState = prev,
                  startedGrounded = isGrounded c,
                  chargeTime = 0,
                  energyConsumed = 0,
                  startEnergy = sprint c,
                  maxPossibleEnergy =
                    min (sprint c) (chargeLeap_staminaDrainPerSecond cfg * chargeLeap_maxChargeTime cfg)\<rparr>,
      chargePreview := 0\<rparr>"

definition executeDash :: "config \<Rightarrow> controller \<Rightarrow> controller" where
  "executeDash cfg c =
    (let force = dash_staminaUsed (dash c) * airDash_forceMultiplier cfg;
         forwardDir = modelForward c;
         dashDirection =
           (if keys c ''KeyS'' \<and> \<not> keys c ''KeyW''
            then \<lparr>vec_x = vec_x forwardDir * (- 1), vec_y = vec_y forwardDir * (- 1),
                  vec_z = vec_z forwardDir * (- 1)\<rparr>
            else forwardDir);
         currentVel = linvel c
     in c\<lparr>linvel := \<lparr>vec_x = vec_x dashDirection * force,
                      vec_y = (if isGrounded c then 0
                               else max (vec_y currentVel) (airDash_downwardVelocityCap cfg)),
                      vec_z = vec_z dashDirection * force\<rparr>\<rparr>)"

definition DashState_enter :: "config \<Rightarrow> controller \<Rightarrow> params \<Rightarrow> controller" where
  "DashState_enter cfg c ps =
    (let used = max (gameplay_minDashEnergy cfg)
                  (min (case p_staminaUsed ps of None \<Rightarrow> gameplay_minDashEnergy cfg | Some u \<Rightarrow> u)
                       (player_maxSprint cfg))
     in executeDash cfg (c\<lparr>dash := \<lparr>dashTimer = 0, dashDuration = 2 / 10, dash_staminaUsed = used\<rparr>\<rparr>))"

text \<open>
  \<open>exit\<close> of the current state: only \<open>ChargeState.exit\<close> does anything (it clears the
  charge preview). \<open>enter\<close> of the new state: the idle, walk, leap and fall states
  only start an animation, the dead state tips the model over and saves the score.
\<close>

definition exitState :: "controller \<Rightarrow> controller" where
  "exitState c = (if currentKey (fsm c) = Some CHARGE then c\<lparr>chargePreview := 0\<rparr> else c)"

definition enterState :: "config \<Rightarrow> controller \<Rightarrow> state_key \<Rightarrow> state_key option \<Rightarrow> params \<Rightarrow> controller" where
  "enterState cfg c name prev ps =
    (if name = CHARGE then ChargeState_enter cfg c prev
     else if name = DASH then DashState_enter cfg c ps
     else c)"

text \<open>
  \<open>controller.fsm.setState(name, params)\<close> with the controller loaded (body and
  model present), so that no \<open>enter\<close> or \<open>exit\<close> throws. The callers in the controller
  discard the boolean result, which is \<open>snd (setState (fsm c) name reason NoThrow)\<close>.
\<close>

definition fsm_setState :: "config \<Rightarrow> controller \<Rightarrow> state_key \<Rightarrow> params \<Rightarrow> controller" where
  "fsm_setState cfg c name ps =
    (let r = setState (fsm c) name (p_reason ps) NoThrow in
     if snd r then enterState cfg ((exitState c)\<lparr>fsm := fst r\<rparr>) name (currentKey (fsm c)) ps
     else c\<lparr>fsm := fst r\<rparr>)"

definition noParams :: params where
  "noParams = \<lparr>p_reason = [], p_staminaUsed = None\<rparr>"

definition performDash :: "config \<Rightarrow> controller \<Rightarrow> controller \<times> bool" where
  "performDash cfg c =
    (if sprint c < gameplay_minDashEnergy cfg then
       (c\<lparr>energyInsufficient := energyInsufficient c @ [''Dash'']\<rparr>, False)
     else
       (let staminaToConsume = sprint c;
            c1 = consumeStamina c staminaToConsume
        in (fsm_setState cfg c1 DASH
              \<lparr>p_reason = ''dash_initiated'', p_staminaUsed = Some staminaToConsume\<rparr>, True)))"

definition die :: "config \<Rightarrow> controller \<Rightarrow> string \<Rightarrow> controller" where
  "die cfg c reason = fsm_setState cfg (c\<lparr>deathReasons := deathReasons c @ [reason]\<rparr>) DEAD noParams"

text \<open>
  The controller as the constructor, \<open>createPhysicsBody\<close> and \<open>loadModel\<close> leave it:
  full health and energy, airborne at the start position, idle. The facing and camera
  directions are inputs from the rendering library; here the model looks along +Z.
\<close>

definition newController :: "config \<Rightarrow> controller" where
  "newController cfg =
    \<lparr>sprint = player_maxSprint cfg,
     health = player_maxHealth cfg,
     sprintRegenTimer = 0,
     isGrounded = False,
     coyoteTime = 0,
     groundTime = 0,
     linvel = \<lparr>vec_x = 0, vec_y = 0, vec_z = 0\<rparr>,
     translation = \<lparr>vec_x = 0, vec_y = 5, vec_z = 0\<rparr>,
     keys = (\<lambda>_. False),
     modelForward = \<lparr>vec_x = 0, vec_y = 0, vec_z = 1\<rparr>,
     cameraFlatDir = \<lparr>vec_x = 0, vec_y = 0, vec_z = 1\<rparr>,
     onFallingPlatform = False,
     fallingPlatformBody = None,
     fsm = fst (setState setupFSM IDLE [] NoThrow),
     charge = \<lparr>previousState = None, startedGrounded = False, chargeTime = 0,
                energyConsumed = 0, startEnergy = 0, maxPossibleEnergy = 0\<rparr>,
     dash = \<lparr>dashTimer = 0, dashDuration = 0, dash_staminaUsed = 0\<rparr>,
     chargePreview = 0,
     energyInsufficient = [],
     platformImpulses = [],
     deathReasons = []\<rparr>"


subsection \<open>Charging and launching (class ChargeState)\<close>

text \<open>The refund of the energy drained while charging, clamped to the capacity.\<close>

definition refundCharge :: "config \<Rightarrow> controller \<Rightarrow> controller" where
  "refundCharge cfg c =
    c\<lparr>sprint := min (player_maxSprint cfg) (sprint c + energyConsumed (charge c))\<rparr>"

definition platformMass :: "real option \<Rightarrow> real" where
  "platformMass m = (case m of None \<Rightarrow> 1000 | Some v \<Rightarrow> if v = 0 then 1000 else v)"

text \<open>
  The jump off the ground or off a falling platform: \<open>dx\<close> and \<open>dz\<close> are added to the
  horizontal velocity, \<open>up\<close> is the vertical velocity, taken relative to a live falling
  platform, which gets the reaction impulse \<open>(ix, - reaction * 0.5, iz)\<close>. A stale
  platform body throws, and the catch block jumps normally.
\<close>

definition jumpVelocity :: "config \<Rightarrow> controller \<Rightarrow> real \<Rightarrow> real \<Rightarrow> real \<Rightarrow> real \<Rightarrow> real \<Rightarrow> controller" where
  "jumpVelocity cfg c dx up dz ix iz =
    (let currentVel = linvel c;
         normal = c\<lparr>linvel := \<lparr>vec_x = vec_x currentVel + dx, vec_y = up,
                                vec_z = vec_z currentVel + dz\<rparr>\<rparr>
     in if onFallingPlatform c \<and> fallingPlatformBody c \<noteq> None then
          (case fallingPlatformBody c of
             Some (LiveBody platformVelY m) \<Rightarrow>
               (let reaction = (up * player_mass cfg) / platformMass m
                in c\<lparr>platformImpulses := platformImpulses c @
                        [\<lparr>vec_x = ix, vec_y = - reaction * (5 / 10), vec_z = iz\<rparr>],
                     linvel := \<lparr>vec_x = vec_x currentVel + dx, vec_y = platformVelY + up,
                                vec_z = vec_z currentVel + dz\<rparr>\<rparr>)
           | _ \<Rightarrow> normal)
        else normal)"

definition launch :: "config \<Rightarrow> controller \<Rightarrow> controller" where
  "launch cfg c =
    (if chargeTime (charge c) < quickJump_tapThreshold cfg then
       (let c1 = refundCharge cfg c in
        if sprint c1 \<ge> quickJump_cost cfg then
          (let c2 = consumeStamina c1 (quickJump_cost cfg);
               c3 = jumpVelocity cfg c2 0 (quickJump_verticalForce cfg) 0 0 0
           in fsm_setState cfg c3 LEAP noParams)
        else
          fsm_setState cfg (c1\<lparr>energyInsufficient := energyInsufficient c1 @ [''Quick Jump'']\<rparr>)
            (if isGrounded c1 then IDLE else FALL) noParams)
     else if energyConsumed (charge c) > 0
              \<and> energyConsumed (charge c) < chargeLeap_minChargeEnergy cfg then
       fsm_setState cfg (refundCharge cfg c) IDLE noParams
     else
       (let pct = (if maxPossibleEnergy (charge c) > 0
                   then min 1 (energyConsumed (charge c) / maxPossibleEnergy (charge c)) else 0);
            vY = chargeLeap_minVertical cfg
                   + (chargeLeap_maxVertical cfg - chargeLeap_minVertical cfg) * pct;
            hF = chargeLeap_minForward cfg
                   + (chargeLeap_maxForward cfg - chargeLeap_minForward cfg) * pct;
            dir = (if chargeLeap_horizontalMultiplierUsesCamera cfg then cameraFlatDir c
                   else modelForward c);
            c1 = jumpVelocity cfg c (vec_x dir * hF) vY (vec_z dir * hF)
                   (- vec_x dir * hF * (3 / 10)) (- vec_z dir * hF * (3 / 10))
        in fsm_setState cfg (c1\<lparr>chargePreview := 0\<rparr>) LEAP noParams))"

text \<open>The block of \<open>ChargeState.update\<close> that drains energy while the key is held.\<close>

definition drainCharge :: "config \<Rightarrow> controller \<Rightarrow> real \<Rightarrow> controller" where
  "drainCharge cfg c dt =
    (if chargeTime (charge c) < chargeLeap_maxChargeTime cfg \<and> sprint c > 0 then
       (let drain = chargeLeap_staminaDrainPerSecond cfg * dt;
            actual = min drain (sprint c);
            d = consumeStamina c actual
        in d\<lparr>charge := (charge d)\<lparr>energyConsumed := energyConsumed (charge d) + actual,
                                   chargeTime := chargeTime (charge d) + dt\<rparr>\<rparr>)
     else c)"

text \<open>The refund of a cancelled charge: only when something was consumed.\<close>

definition cancelRefund :: "config \<Rightarrow> controller \<Rightarrow> controller" where
  "cancelRefund cfg c = (if energyConsumed (charge c) > 0 then refundCharge cfg c else c)"

definition ChargeState_update :: "config \<Rightarrow> controller \<Rightarrow> real \<Rightarrow> controller" where
  "ChargeState_update cfg c dt =
    (if startedGrounded (charge c) \<and> \<not> isGrounded c \<and> coyoteTime c \<le> 0 then
       fsm_setState cfg (cancelRefund cfg c) FALL noParams
     else if \<not> keys c ''Space'' then launch cfg c
     else if \<not> isGrounded c \<and> coyoteTime c \<le> 0 \<and> chargeTime (charge c) = 0 then
       fsm_setState cfg ((cancelRefund cfg c)\<lparr>chargePreview := 0\<rparr>) FALL noParams
     else
       (let c1 = drainCharge cfg c dt;
            percent = (if maxPossibleEnergy (charge c1) > 0
                       then energyConsumed (charge c1) / maxPossibleEnergy (charge c1) else 0);
            c2 = c1\<lparr>chargePreview := percent\<rparr>
        in if sprint c2 \<le> 0 \<or> chargeTime (charge c2) \<ge> chargeLeap_maxChargeTime cfg
           then launch cfg c2 else c2))"

text \<open>
  What \<open>fixedUpdate\<close> does to the energy in one fixed step: the FSM update (here for
  a controller in the charge state; the other states spend energy only through
  \<open>performDash\<close>), then regeneration unless charging or dashing.
\<close>

definition chargeStep :: "config \<Rightarrow> controller \<Rightarrow> real \<Rightarrow> controller" where
  "chargeStep cfg c dt =
    (if currentKey (fsm c) = Some CHARGE then ChargeState_update cfg c dt else c)"

definition regenStep :: "config \<Rightarrow> controller \<Rightarrow> real \<Rightarrow> controller" where
  "regenStep cfg c dt =
    (if currentKey (fsm c) \<noteq> Some CHARGE \<and> currentKey (fsm c) \<noteq> Some DASH
     then updateSprint cfg c dt else c)"


text \<open>The operations on the controller that touch the energy, and what senses change.\<close>

datatype ctl_event =
    EvConsumeStamina real
  | EvRegen real
  | EvChargeStep real
  | EvPerformDash
  | EvSetState state_key params
  | EvRefund
  | EvSense bool real real "string \<Rightarrow> bool" "platform_body option"

fun ctlEvent :: "config \<Rightarrow> controller \<Rightarrow> ctl_event \<Rightarrow> controller" where
  "ctlEvent cfg c (EvConsumeStamina amount) = consumeStamina c amount"
| "ctlEvent cfg c (EvRegen dt) = regenStep cfg c dt"
| "ctlEvent cfg c (EvChargeStep dt) = chargeStep cfg c dt"
| "ctlEvent cfg c EvPerformDash = fst (performDash cfg c)"
| "ctlEvent cfg c (EvSetState name ps) = fsm_setState cfg c name ps"
| "ctlEvent cfg c EvRefund = refundCharge cfg c"
| "ctlEvent cfg c (EvSense grounded coyote gtime ks body) =
     c\<lparr>isGrounded := grounded, coyoteTime := coyote, groundTime := gtime, keys := ks,
       onFallingPlatform := (body \<noteq> None), fallingPlatformBody := body\<rparr>"

fun eventOk :: "ctl_event \<Rightarrow> bool" where
  "eventOk (EvConsumeStamina amount) = (0 \<le> amount)"
| "eventOk (EvRegen dt) = (0 \<le> dt)"
| "eventOk (EvChargeStep dt) = (0 \<le> dt)"
| "eventOk _ = True"

definition runCtl :: "config \<Rightarrow> controller \<Rightarrow> ctl_event list \<Rightarrow> controller" where
  "runCtl cfg c evs = foldl (ctlEvent cfg) c evs"

definition configOk :: "config \<Rightarrow> bool" where
  "configOk cfg = (0 \<le> player_maxSprint cfg \<and> 0 \<le> player_sprintRegenRate cfg
     \<and> 0 \<le> chargeLeap_staminaDrainPerSecond cfg \<and> 0 \<le> quickJump_cost cfg)"

definition energyInv :: "config \<Rightarrow> controller \<Rightarrow> bool" where
  "energyInv cfg c = (0 \<le> sprint c \<and> sprint c \<le> player_maxSprint cfg
     \<and> 0 \<le> energyConsumed (charge c))"

text \<open>While charging, the energy left plus the energy consumed by the charge.\<close>

definition chargeSum :: "controller \<Rightarrow> real" where
  "chargeSum c = sprint c + energyConsumed (charge c)"

subsection \<open>Lava contact (the check in Game.animate)\<close>

record lava_gate =
  inMainMenu :: bool
  isCleaningUp :: bool
  running :: bool
  hasLavaCollider :: bool

definition playerBottom :: "config \<Rightarrow> controller \<Rightarrow> real" where
  "playerBottom cfg c = vec_y (translation c) - (player_height cfg + player_radius cfg)"

definition lavaContactCheck :: "config \<Rightarrow> lava_gate \<Rightarrow> controller \<Rightarrow> controller" where
  "lavaContactCheck cfg gate c =
    (if \<not> inMainMenu gate \<and> \<not> isCleaningUp gate \<and> running gate \<and> lava_killOnContact cfg
        \<and> hasLavaCollider gate \<and> currentKey (fsm c) \<noteq> Some DEAD
     then (if playerBottom cfg c \<le> lava_surfaceY cfg + 5 / 100 then die cfg c ''lava'' else c)
     else c)"


section \<open>Track segments, crumble platforms and ground detection (class Game)\<close>

text \<open>
  Segment objects and platform meshes are JavaScript objects that are shared: the
  track list, the segment pool and the closure of a crumble timer all refer to the same
  segment object, and the closure also keeps the mesh it saw. They are modelled by two
  stores, \<open>segObj\<close> and \<open>meshObj\<close>, from references to values. \<open>timeouts\<close> holds
  the pending \<open>setTimeout\<close> callbacks of the crumble system, each with the segment
  and the mesh its closure captured; \<open>crumbleTimers\<close> is the game's map from a segment
  index to the timer id. A rigid body is its handle.
\<close>

datatype crumble_state = STABLE | WARNING | FALLING | DESTROYED

record mesh_data =
  crumbleState :: "crumble_state option"
  meshVisible :: bool
  warningTimer :: real
  tumbled :: bool

record segment =
  seg_index :: int
  seg_x :: real
  seg_z :: real
  isCrumblePlatform :: bool
  threeMeshes :: "nat list"
  rapierBody :: "nat option"
  seg_dynamic :: bool

record game =
  crumbleMode :: bool
  crumbleSafeBuffer :: int
  trackSegments :: "nat list"
  segObj :: "nat \<Rightarrow> segment"
  meshObj :: "nat \<Rightarrow> mesh_data"
  crumbleTimers :: "int \<rightharpoonup> nat"
  timeouts :: "nat \<rightharpoonup> nat \<times> nat"
  nextTimeout :: nat
  nextMesh :: nat
  nextSegment :: nat
  nextBody :: nat
  pool :: "nat list"
  playerSegmentIndex :: int
  score :: nat

subsection \<open>Segment pool\<close>

definition maxPoolSize :: nat where "maxPoolSize = 20"

definition createSegment :: segment where
  "createSegment = \<lparr>seg_index = 0, seg_x = 0, seg_z = 0, isCrumblePlatform = False,
     threeMeshes = [], rapierBody = None, seg_dynamic = False\<rparr>"

definition resetSegment :: "segment \<Rightarrow> segment" where
  "resetSegment sg = sg\<lparr>seg_index := 0, seg_x := 0, seg_z := 0, threeMeshes := [],
     rapierBody := None, seg_dynamic := False, isCrumblePlatform := False\<rparr>"

definition getSegment :: "game \<Rightarrow> nat \<times> game" where
  "getSegment g =
    (if pool g = [] then
       (nextSegment g,
        g\<lparr>segObj := (segObj g)(nextSegment g := createSegment), nextSegment := Suc (nextSegment g)\<rparr>)
     else (last (pool g), g\<lparr>pool := butlast (pool g)\<rparr>))"

definition returnSegment :: "game \<Rightarrow> nat \<Rightarrow> game" where
  "returnSegment g sid =
    (if length (pool g) < maxPoolSize
     then g\<lparr>segObj := (segObj g)(sid := resetSegment (segObj g sid)), pool := pool g @ [sid]\<rparr>
     else g)"

definition newMesh :: "game \<Rightarrow> mesh_data" where
  "newMesh g = \<lparr>crumbleState = (if crumbleMode g then Some STABLE else None),
     meshVisible = True, warningTimer = 0, tumbled = False\<rparr>"

definition initGame :: "bool \<Rightarrow> int \<Rightarrow> game" where
  "initGame mode buffer =
    \<lparr>crumbleMode = mode, crumbleSafeBuffer = buffer, trackSegments = [],
     segObj = (\<lambda>_. createSegment),
     meshObj = (\<lambda>_. \<lparr>crumbleState = None, meshVisible = True, warningTimer = 0, tumbled = False\<rparr>),
     crumbleTimers = Map.empty, timeouts = Map.empty, nextTimeout = 0, nextMesh = 0,
     nextSegment = 0, nextBody = 0, pool = [], playerSegmentIndex = 0, score = 0\<rparr>"

subsection \<open>Crumble system\<close>

definition clearTimeout :: "game \<Rightarrow> nat \<Rightarrow> game" where
  "clearTimeout g t = g\<lparr>timeouts := (timeouts g)(t := None)\<rparr>"

definition setCrumbleState :: "game \<Rightarrow> nat \<Rightarrow> crumble_state \<Rightarrow> game" where
  "setCrumbleState g mid st =
    g\<lparr>meshObj := (meshObj g)(mid := (meshObj g mid)\<lparr>crumbleState := Some st\<rparr>)\<rparr>"

definition startCrumble :: "game \<Rightarrow> nat \<Rightarrow> game" where
  "startCrumble g sid =
    (if \<not> crumbleMode g then g
     else if \<not> isCrumblePlatform (segObj g sid) \<or> threeMeshes (segObj g sid) = [] then g
     else
       (let mid = hd (threeMeshes (segObj g sid));
            st = crumbleState (meshObj g mid)
        in if st \<noteq> None \<and> st \<noteq> Some STABLE then g
           else
             (let g1 = (case crumbleTimers g (seg_index (segObj g sid)) of
                          Some old \<Rightarrow> clearTimeout g old | None \<Rightarrow> g);
                  g2 = setCrumbleState g1 mid WARNING;
                  g3 = g2\<lparr>meshObj := (meshObj g2)(mid := (meshObj g2 mid)\<lparr>warningTimer := 0\<rparr>)\<rparr>;
                  delayTimer = nextTimeout g3
              in g3\<lparr>timeouts := (timeouts g3)(delayTimer \<mapsto> (sid, mid)),
                    nextTimeout := Suc delayTimer,
                    crumbleTimers := (crumbleTimers g3)(seg_index (segObj g3 sid) \<mapsto> delayTimer)\<rparr>)))"

definition convertPlatformToDynamic :: "game \<Rightarrow> nat \<Rightarrow> game" where
  "convertPlatformToDynamic g sid =
    (case threeMeshes (segObj g sid) of
       [] \<Rightarrow> g
     | mid # _ \<Rightarrow>
         g\<lparr>segObj := (segObj g)(sid := (segObj g sid)\<lparr>rapierBody := Some (nextBody g),
                                                      seg_dynamic := True\<rparr>),
           meshObj := (meshObj g)(mid := (meshObj g mid)\<lparr>tumbled := False\<rparr>),
           nextBody := Suc (nextBody g)\<rparr>)"

text \<open>
  The browser runs the callback of a pending timeout once, some time after the delay;
  a cleared timeout never runs. The callback uses the segment and the mesh of its closure.
\<close>

definition timeoutFires :: "game \<Rightarrow> nat \<Rightarrow> game" where
  "timeoutFires g t =
    (case timeouts g t of
       None \<Rightarrow> g
     | Some (sid, mid) \<Rightarrow>
         (let g1 = clearTimeout g t;
              g2 = setCrumbleState g1 mid FALLING;
              g3 = convertPlatformToDynamic g2 sid
          in g3\<lparr>crumbleTimers := (crumbleTimers g3)(seg_index (segObj g3 sid) := None)\<rparr>))"

definition lavaY :: "config \<Rightarrow> real" where
  "lavaY cfg = (if lava_surfaceY cfg = 0 then - 50 else lava_surfaceY cfg)"

definition destroyFallenPlatform :: "game \<Rightarrow> nat \<Rightarrow> game" where
  "destroyFallenPlatform g sid =
    (case threeMeshes (segObj g sid) of
       [] \<Rightarrow> g
     | mid # _ \<Rightarrow>
         if crumbleState (meshObj g mid) \<noteq> Some FALLING then g
         else
           (let g1 = (case crumbleTimers g (seg_index (segObj g sid)) of
                        Some old \<Rightarrow> (clearTimeout g old)\<lparr>crumbleTimers :=
                                       (crumbleTimers g)(seg_index (segObj g sid) := None)\<rparr>
                      | None \<Rightarrow> g);
                g2 = g1\<lparr>segObj := (segObj g1)(sid := (segObj g1 sid)\<lparr>rapierBody := None\<rparr>)\<rparr>;
                g3 = g2\<lparr>meshObj := (meshObj g2)(mid := (meshObj g2 mid)\<lparr>meshVisible := False\<rparr>)\<rparr>
            in setCrumbleState g3 mid DESTROYED))"

text \<open>
  One iteration of the loop of \<open>updateCrumblePlatforms\<close>; \<open>readY sid\<close> is the height
  the physics engine reports for the segment's body (the mesh height without a body).
\<close>

definition crumbleSegmentStep :: "config \<Rightarrow> real \<Rightarrow> (nat \<Rightarrow> real) \<Rightarrow> game \<Rightarrow> nat \<Rightarrow> game" where
  "crumbleSegmentStep cfg dt readY g sid =
    (if \<not> isCrumblePlatform (segObj g sid) then g
     else
       (case threeMeshes (segObj g sid) of
          [] \<Rightarrow> g
        | mid # _ \<Rightarrow>
            if crumbleState (meshObj g mid) = Some WARNING then
              g\<lparr>meshObj := (meshObj g)(mid := (meshObj g mid)\<lparr>warningTimer :=
                   warningTimer (meshObj g mid) + dt\<rparr>)\<rparr>
            else if crumbleState (meshObj g mid) = Some FALLING then
              (let g1 = (if \<not> tumbled (meshObj g mid) \<and> rapierBody (segObj g sid) \<noteq> None
                            \<and> seg_dynamic (segObj g sid)
                         then g\<lparr>meshObj := (meshObj g)(mid := (meshObj g mid)\<lparr>tumbled := True\<rparr>)\<rparr>
                         else g)
               in if readY sid \<le> lavaY cfg then destroyFallenPlatform g1 sid else g1)
            else g))"

definition updateCrumblePlatforms :: "config \<Rightarrow> game \<Rightarrow> real \<Rightarrow> (nat \<Rightarrow> real) \<Rightarrow> game" where
  "updateCrumblePlatforms cfg g dt readY =
    (if \<not> crumbleMode g then g
     else foldl (crumbleSegmentStep cfg dt readY) g (trackSegments g))"

subsection \<open>Generating and despawning segments\<close>

definition despawnSegment :: "game \<Rightarrow> nat \<Rightarrow> game" where
  "despawnSegment g sid =
    (let g1 = (case crumbleTimers g (seg_index (segObj g sid)) of
                 Some old \<Rightarrow> (clearTimeout g old)\<lparr>crumbleTimers :=
                                (crumbleTimers g)(seg_index (segObj g sid) := None)\<rparr>
               | None \<Rightarrow> g)
     in returnSegment g1 sid)"

text \<open>
  What \<open>generateSegment\<close> draws at random or computes with trigonometry for the segment
  of a given index: its position and whether it is a crumble platform.
\<close>

record gen_roll =
  roll_x :: real
  roll_z :: real
  roll_crumble :: bool

definition generateSegment :: "game \<Rightarrow> nat option \<Rightarrow> (int \<Rightarrow> gen_roll) \<Rightarrow> game" where
  "generateSegment g prevSegment rolls =
    (let index = (case prevSegment of None \<Rightarrow> - 1 | Some prev \<Rightarrow> seg_index (segObj g prev)) + 1;
         sid = fst (getSegment g);
         g1 = snd (getSegment g);
         mid = nextMesh g1;
         sg = (segObj g1 sid)\<lparr>seg_index := index, seg_x := roll_x (rolls index),
                 seg_z := roll_z (rolls index),
                 threeMeshes := threeMeshes (segObj g1 sid) @ [mid],
                 rapierBody := Some (nextBody g1), seg_dynamic := False,
                 isCrumblePlatform :=
                   (if crumbleMode g1
                    then index > crumbleSafeBuffer g1 \<and> roll_crumble (rolls index)
                    else isCrumblePlatform (segObj g1 sid))\<rparr>
     in g1\<lparr>segObj := (segObj g1)(sid := sg),
           meshObj := (meshObj g1)(mid := newMesh g1),
           nextMesh := Suc mid,
           nextBody := Suc (nextBody g1),
           trackSegments := trackSegments g1 @ [sid],
           score := score g1 + 1\<rparr>)"

definition lastSegment :: "game \<Rightarrow> nat option" where
  "lastSegment g = (if length (trackSegments g) > 0 then Some (last (trackSegments g)) else None)"

function generateLoop :: "game \<Rightarrow> (int \<Rightarrow> gen_roll) \<Rightarrow> int \<Rightarrow> game" where
  "generateLoop g rolls desiredSegmentCount =
    (if int (length (trackSegments g)) < desiredSegmentCount
     then generateLoop (generateSegment g (lastSegment g) rolls) rolls desiredSegmentCount
     else g)"
  by pat_completeness auto
termination
  by (relation "measure (\<lambda>(g, rolls, n). nat (n - int (length (trackSegments g))))")
     (auto simp: generateSegment_def getSegment_def Let_def)

declare generateLoop.simps [simp del]

text \<open>
  The throttled nearest-segment search of \<open>updateTrack\<close> over the slots
  \<open>[idx - 3, idx + 4)\<close>; \<open>None\<close> stands for the initial \<open>Infinity\<close>.
\<close>

definition nearestSegment :: "game \<Rightarrow> real \<Rightarrow> real \<Rightarrow> int" where
  "nearestSegment g px pz =
    (let searchStart = max 0 (playerSegmentIndex g - 3);
         searchEnd = min (int (length (trackSegments g))) (playerSegmentIndex g + 4)
     in snd (foldl
          (\<lambda>(closest, newIndex) i.
             (let sg = segObj g (trackSegments g ! i);
                  dx = px - seg_x sg;
                  dz = pz - seg_z sg;
                  d2 = dx * dx + dz * dz
              in if (case closest of None \<Rightarrow> True | Some cl \<Rightarrow> d2 < cl)
                 then (Some d2, int i) else (closest, newIndex)))
          (None, playerSegmentIndex g)
          [nat searchStart ..< nat searchEnd]))"

definition despawnFront :: "game \<Rightarrow> nat \<Rightarrow> game" where
  "despawnFront g n =
    foldl despawnSegment (g\<lparr>trackSegments := drop n (trackSegments g)\<rparr>) (take n (trackSegments g))"

text \<open>
  \<open>updateTrack\<close>: \<open>ready\<close> says that the player body and the physics world exist,
  \<open>search\<close> is the player position when the throttle lets the search run. The visual
  re-sync, the platform motion and the compaction of the hazard arrays are not modelled.
\<close>

definition updateTrack :: "config \<Rightarrow> game \<Rightarrow> bool \<Rightarrow> (real \<times> real) option \<Rightarrow> (int \<Rightarrow> gen_roll) \<Rightarrow> game" where
  "updateTrack cfg g ready search rolls =
    (if \<not> ready then g
     else
       (let g0 = (case search of
                    None \<Rightarrow> g
                  | Some (px, pz) \<Rightarrow> g\<lparr>playerSegmentIndex := nearestSegment g px pz\<rparr>);
            desiredSegmentCount = playerSegmentIndex g0 + track_segmentsToGenerateAhead cfg;
            g1 = generateLoop g0 rolls desiredSegmentCount;
            despawnCount = playerSegmentIndex g1 - track_segmentsToKeepBehind cfg
        in if despawnCount > 0
           then (despawnFront g1 (nat despawnCount))\<lparr>playerSegmentIndex :=
                   playerSegmentIndex g1 - despawnCount\<rparr>
           else g1))"

subsection \<open>Ground detection: which segment the player stands on\<close>

text \<open>
  The loop of \<open>checkGrounded\<close> over \<open>trackSegments\<close>: the first segment whose body
  has the handle of the body that was hit.
\<close>

definition matchGroundSegment :: "game \<Rightarrow> nat \<Rightarrow> nat option" where
  "matchGroundSegment g hitHandle =
    find (\<lambda>sid. rapierBody (segObj g sid) = Some hitHandle) (trackSegments g)"

text \<open>
  The part of \<open>checkGrounded\<close> that concerns the track: the matched segment
  (\<open>currentGroundSegment\<close>), whether the player rides a falling platform, and the game
  after \<open>startCrumble\<close> when the player stands on a stable crumble platform.
\<close>

definition checkGroundSegment :: "game \<Rightarrow> nat option \<Rightarrow> nat option \<times> bool \<times> game" where
  "checkGroundSegment g hit =
    (case hit of
       None \<Rightarrow> (None, False, g)
     | Some hitHandle \<Rightarrow>
         (case matchGroundSegment g hitHandle of
            None \<Rightarrow> (None, False, g)
          | Some sid \<Rightarrow>
              if crumbleMode g \<and> isCrumblePlatform (segObj g sid) then
                (case threeMeshes (segObj g sid) of
                   [] \<Rightarrow> (Some sid, False, g)
                 | mid # _ \<Rightarrow>
                     if crumbleState (meshObj g mid) = Some FALLING
                          \<and> rapierBody (segObj g sid) \<noteq> None \<and> seg_dynamic (segObj g sid)
                     then (Some sid, True, g)
                     else if crumbleState (meshObj g mid) = Some STABLE
                     then (Some sid, False, startCrumble g sid)
                     else (Some sid, False, g))
              else (Some sid, False, g)))"

text \<open>
  Modelled from the spec: the window search that section 4.1 of the specification
  describes for ground detection, which the source does not have. The window is the one
  of the nearest-segment search, the slots \<open>[idx - 3, idx + 4)\<close> around the player's
  last known segment index.
\<close>

definition windowSlots :: "game \<Rightarrow> nat list" where
  "windowSlots g =
    [nat (max 0 (playerSegmentIndex g - 3)) ..<
     nat (min (int (length (trackSegments g))) (playerSegmentIndex g + 4))]"

definition matchGroundSegment_window :: "game \<Rightarrow> nat \<Rightarrow> nat option" where
  "matchGroundSegment_window g hitHandle =
    find (\<lambda>sid. rapierBody (segObj g sid) = Some hitHandle)
      (map (\<lambda>i. trackSegments g ! i) (windowSlots g))"

text \<open>
  A sample of what generation draws: a straight track along +Z with one segment every
  20 units, on which every platform past the safe buffer is a crumble platform.
\<close>

definition flatRolls :: "int \<Rightarrow> gen_roll" where
  "flatRolls i = \<lparr>roll_x = 0, roll_z = 20 * real_of_int i, roll_crumble = True\<rparr>"

subsection \<open>Events of the track and the crumble system\<close>

text \<open>
  What happens to the track between two frames: the ground check hits a body (or
  nothing), a pending timeout fires, the crumble platforms are updated with the heights
  the physics engine reports, the track is updated.
\<close>

datatype game_event =
    EvGroundHit "nat option"
  | EvTimeout nat
  | EvCrumbleTick real "nat \<Rightarrow> real"
  | EvUpdateTrack bool "(real \<times> real) option" "int \<Rightarrow> gen_roll"

fun gameEvent :: "config \<Rightarrow> game \<Rightarrow> game_event \<Rightarrow> game" where
  "gameEvent cfg g (EvGroundHit hit) = snd (snd (checkGroundSegment g hit))"
| "gameEvent cfg g (EvTimeout t) = timeoutFires g t"
| "gameEvent cfg g (EvCrumbleTick dt readY) = updateCrumblePlatforms cfg g dt readY"
| "gameEvent cfg g (EvUpdateTrack ready search rolls) = updateTrack cfg g ready search rolls"

definition runGame :: "config \<Rightarrow> game \<Rightarrow> game_event list \<Rightarrow> game" where
  "runGame cfg g evs = foldl (gameEvent cfg) g evs"

text \<open>
  The invariant of the crumble timers. Every pending timeout has captured a mesh that is
  in the warning state and a segment of the track (or of \<open>extra\<close>, the segments that a
  despawn in progress has taken off the track and not yet released), and is registered in
  \<open>crumbleTimers\<close> under the index of that segment; no two pending timeouts share a
  mesh; meshes and segment objects in use are allocated ones; no segment object is
  twice in the track and the pool.
\<close>

definition crumbleInvX :: "game \<Rightarrow> nat list \<Rightarrow> bool" where
  "crumbleInvX g extra =
    ((\<forall>t sid mid. timeouts g t = Some (sid, mid) \<longrightarrow>
         crumbleState (meshObj g mid) = Some WARNING \<and> mid < nextMesh g
       \<and> crumbleTimers g (seg_index (segObj g sid)) = Some t
       \<and> sid \<in> set (extra @ trackSegments g))
   \<and> (\<forall>t t' sid sid' mid.
         timeouts g t = Some (sid, mid) \<and> timeouts g t' = Some (sid', mid) \<longrightarrow> t = t')
   \<and> (\<forall>sid. \<forall>m \<in> set (threeMeshes (segObj g sid)). m < nextMesh g)
   \<and> distinct (extra @ trackSegments g @ pool g)
   \<and> (\<forall>sid \<in> set (extra @ trackSegments g @ pool g). sid < nextSegment g))"

definition crumbleInv :: "game \<Rightarrow> bool" where
  "crumbleInv g = crumbleInvX g []"

text \<open>
  The timeouts left when the timer registered under a segment index (if any) is cleared.
\<close>

definition clearOld :: "game \<Rightarrow> int \<Rightarrow> (nat \<rightharpoonup> nat \<times> nat)" where
  "clearOld g idx =
    (case crumbleTimers g idx of Some old \<Rightarrow> (timeouts g)(old := None) | None \<Rightarrow> timeouts g)"

text \<open>
  What an event may do to the crumble state of one mesh: nothing, or one step of the
  lifecycle with its cause. Stable to warning: the ground check matched a crumble segment
  whose platform mesh this is, and a timeout for the mesh is now pending. Warning to
  falling: the timeout that captured the mesh fired. Falling to destroyed: the update of
  the crumble platforms read, for a segment of the track with this platform mesh, a
  height at or below the lava surface.
\<close>

definition lifecycleStep :: "config \<Rightarrow> game \<Rightarrow> game_event \<Rightarrow> game \<Rightarrow> nat \<Rightarrow> bool" where
  "lifecycleStep cfg g ev g' mid =
    (crumbleState (meshObj g' mid) = crumbleState (meshObj g mid)
     \<or> (crumbleState (meshObj g mid) = Some STABLE \<and> crumbleState (meshObj g' mid) = Some WARNING
        \<and> (\<exists>h sid. ev = EvGroundHit (Some h) \<and> matchGroundSegment g h = Some sid
              \<and> isCrumblePlatform (segObj g sid) \<and> threeMeshes (segObj g sid) \<noteq> []
              \<and> hd (threeMeshes (segObj g sid)) = mid)
        \<and> (\<exists>t sid. timeouts g' t = Some (sid, mid)))
     \<or> (crumbleState (meshObj g mid) = Some WARNING \<and> crumbleState (meshObj g' mid) = Some FALLING
        \<and> (\<exists>t sid. ev = EvTimeout t \<and> timeouts g t = Some (sid, mid)))
     \<or> (crumbleState (meshObj g mid) = Some FALLING \<and> crumbleState (meshObj g' mid) = Some DESTROYED
        \<and> (\<exists>dt readY sid. ev = EvCrumbleTick dt readY \<and> sid \<in> set (trackSegments g)
              \<and> threeMeshes (segObj g sid) \<noteq> [] \<and> hd (threeMeshes (segObj g sid)) = mid
              \<and> readY sid \<le> lavaY cfg)))"

text \<open>A mesh that no pending timeout has captured and that is in the warning state.\<close>

definition strandedWarning :: "game \<Rightarrow> nat \<Rightarrow> bool" where
  "strandedWarning g mid =
    (crumbleState (meshObj g mid) = Some WARNING \<and> mid < nextMesh g
     \<and> (\<forall>t sid. timeouts g t \<noteq> Some (sid, mid)))"


section \<open>Properties of the state machine\<close>

lemmas key_defs = IDLE_def WALK_def CHARGE_def LEAP_def FALL_def DASH_def DEAD_def

lemma states_setState [simp]: "states (fst (setState f name reason flt)) = states f"
  by (simp add: setState_def recoverToSafeState_def split: fault.splits)

lemma states_runFSM [simp]: "states (runFSM f calls) = states f"
  unfolding runFSM_def
  by (induction calls arbitrary: f) (auto simp: case_prod_beta)

lemma states_setupFSM [simp]: "states setupFSM = STATES"
  by (simp add: setupFSM_def STATES_def addState_def newFSM_def)

lemma currentKey_setupFSM [simp]: "currentKey setupFSM = None"
  by (simp add: setupFSM_def STATES_def addState_def newFSM_def)

lemma currentKey_setState_cases:
  "currentKey (fst (setState f name reason flt)) = currentKey f
   \<or> (currentKey (fst (setState f name reason flt)) = Some name \<and> name \<in> set (states f))
   \<or> (currentKey (fst (setState f name reason flt)) = Some IDLE \<and> IDLE \<in> set (states f))"
  by (auto simp: setState_def recoverToSafeState_def split: fault.splits)

lemma keyOk_setState: "keyOk f \<Longrightarrow> keyOk (fst (setState f name reason flt))"
  using currentKey_setState_cases[of f name reason flt]
  unfolding keyOk_def by auto

lemma keyOk_runFSM: "keyOk f \<Longrightarrow> keyOk (runFSM f calls)"
  unfolding runFSM_def
  by (induction calls arbitrary: f) (auto simp: case_prod_beta keyOk_setState)

lemma keyOk_reachable: "keyOk (runFSM setupFSM calls)"
  by (rule keyOk_runFSM) (simp add: keyOk_def)

lemma allowedFrom_DEAD: "allowedFrom DEAD = [IDLE]"
  by (simp add: allowedFrom_def validTransitions_def key_defs)

lemma STATES_nonempty: "k \<in> set STATES \<Longrightarrow> k \<noteq> []"
  by (auto simp: STATES_def key_defs)

lemma setState_rejects:
  assumes "currentKey f = Some k" "k \<noteq> []" "name \<noteq> k" "name \<notin> set (allowedFrom k)"
  shows "snd (setState f name reason flt) = False"
    and "currentKey (fst (setState f name reason flt)) = Some k"
    and "errorLog (fst (setState f name reason flt)) = errorLog f @ [InvalidTransition k name reason]
         \<or> errorLog (fst (setState f name reason flt)) = errorLog f @ [InvalidStateKey name]"
  using assms by (auto simp: setState_def canTransitionKey_def prevLabel_def)

lemma setState_same:
  "currentKey f = Some name \<Longrightarrow> setState f name reason flt =
    (if name \<in> set (states f) then (f, False)
     else (f\<lparr>errorLog := errorLog f @ [InvalidStateKey name]\<rparr>, False))"
  by (simp add: setState_def)

lemma setState_initial:
  assumes "currentKey f = None" "name \<in> set (states f)"
  shows "setState f name reason NoThrow =
     (f\<lparr>currentKey := Some name, stateHistory := pushHistory (stateHistory f) (name, reason)\<rparr>, True)"
  using assms by (simp add: setState_def canTransitionKey_def)

lemma setState_accepted:
  assumes "snd (setState f name reason flt)"
  shows "currentKey (fst (setState f name reason flt)) = Some name"
    and "name \<in> set (states f)"
    and "canTransitionKey (currentKey f) name"
    and "currentKey f \<noteq> Some name"
  using assms by (auto simp: setState_def split: if_splits fault.splits)

lemma setState_from_DEAD:
  assumes "currentKey f = Some DEAD" "name \<noteq> IDLE"
  shows "currentKey (fst (setState f name reason flt)) = Some DEAD"
    and "\<not> snd (setState f name reason flt)"
  using assms by (auto simp: setState_def canTransitionKey_def allowedFrom_DEAD, auto simp: key_defs)

text \<open>
  C1, as the code has it. The claim as stated fails in one point: a call whose target is
  the current state is rejected before the table is consulted and without a log entry,
  although no state is in its own row of the table. Here the FSM that has entered the
  idle state is asked for the idle state again: the call returns false and nothing is logged.
\<close>

theorem fsm_self_transition_not_logged:
  "currentKey (runFSM setupFSM [(IDLE, [], NoThrow)]) = Some IDLE
   \<and> IDLE \<notin> set (allowedFrom IDLE)
   \<and> snd (setState (runFSM setupFSM [(IDLE, [], NoThrow)]) IDLE [] NoThrow) = False
   \<and> errorLog (fst (setState (runFSM setupFSM [(IDLE, [], NoThrow)]) IDLE [] NoThrow)) = []"
  by (simp add: runFSM_def setState_def setupFSM_def STATES_def addState_def newFSM_def
        canTransitionKey_def allowedFrom_def validTransitions_def pushHistory_def
        maxHistory_def key_defs)

text \<open>
  C1 (amended): after every sequence of \<open>setState\<close> calls on the FSM of the controller,
  with any targets, reasons and exceptions, the current state is none yet or one of the
  seven states. A further call whose target differs from the current state and is not in
  the row of the current state returns false, leaves the state unchanged and adds exactly
  one entry to the error log; a call whose target is the current state returns false and
  changes nothing, log included. From no state every target is allowed, and a registered
  one is entered. Every accepted transition is an edge of the table. From the dead state
  only the idle state can be reached.
\<close>

theorem fsm_setState_transition_table:
  "let f = runFSM setupFSM calls; f' = fst (setState f name reason flt);
       ok = snd (setState f name reason flt)
   in (currentKey f = None \<or> (\<exists>k \<in> set STATES. currentKey f = Some k))
    \<and> (\<forall>k. currentKey f = Some k \<and> name \<noteq> k \<and> name \<notin> set (allowedFrom k) \<longrightarrow>
          \<not> ok \<and> currentKey f' = Some k
          \<and> (errorLog f' = errorLog f @ [InvalidTransition k name reason]
               \<or> errorLog f' = errorLog f @ [InvalidStateKey name]))
    \<and> (currentKey f = Some name \<longrightarrow> \<not> ok \<and> f' = f)
    \<and> (currentKey f = None \<longrightarrow> canTransitionKey None name
          \<and> (name \<in> set STATES \<and> flt = NoThrow \<longrightarrow> ok \<and> currentKey f' = Some name))
    \<and> (ok \<longrightarrow> currentKey f' = Some name \<and> name \<in> set STATES
          \<and> (\<forall>k. currentKey f = Some k \<longrightarrow> name \<in> set (allowedFrom k)))
    \<and> (currentKey f = Some DEAD \<and> name \<noteq> IDLE \<longrightarrow> \<not> ok \<and> currentKey f' = Some DEAD)
    \<and> (currentKey f = Some DEAD \<longrightarrow> currentKey f' = Some DEAD \<or> currentKey f' = Some IDLE)"
proof -
  define f where "f = runFSM setupFSM calls"
  have st: "states f = STATES" by (simp add: f_def)
  have ok: "keyOk f" unfolding f_def by (rule keyOk_reachable)
  have inv: "currentKey f = None \<or> (\<exists>k \<in> set STATES. currentKey f = Some k)"
    using ok st by (simp add: keyOk_def)
  have ne: "k \<noteq> []" if "currentKey f = Some k" for k
    using inv that STATES_nonempty by auto
  have rej: "\<forall>k. currentKey f = Some k \<and> name \<noteq> k \<and> name \<notin> set (allowedFrom k) \<longrightarrow>
          \<not> snd (setState f name reason flt) \<and> currentKey (fst (setState f name reason flt)) = Some k
          \<and> (errorLog (fst (setState f name reason flt)) = errorLog f @ [InvalidTransition k name reason]
               \<or> errorLog (fst (setState f name reason flt)) = errorLog f @ [InvalidStateKey name])"
    using setState_rejects[of f _ name reason flt] ne by blast
  have same: "currentKey f = Some name \<longrightarrow>
      \<not> snd (setState f name reason flt) \<and> fst (setState f name reason flt) = f"
  proof
    assume a: "currentKey f = Some name"
    then have "name \<in> set (states f)" using inv st by auto
    then show "\<not> snd (setState f name reason flt) \<and> fst (setState f name reason flt) = f"
      using a by (simp add: setState_same)
  qed
  have init: "currentKey f = None \<longrightarrow> canTransitionKey None name
          \<and> (name \<in> set STATES \<and> flt = NoThrow \<longrightarrow>
               snd (setState f name reason flt) \<and> currentKey (fst (setState f name reason flt)) = Some name)"
    using setState_initial[of f name reason] st by (simp add: canTransitionKey_def)
  have acc: "snd (setState f name reason flt) \<longrightarrow>
      currentKey (fst (setState f name reason flt)) = Some name \<and> name \<in> set STATES
          \<and> (\<forall>k. currentKey f = Some k \<longrightarrow> name \<in> set (allowedFrom k))"
  proof
    assume a: "snd (setState f name reason flt)"
    have "name \<in> set (allowedFrom k)" if "currentKey f = Some k" for k
      using setState_accepted(3)[OF a] that ne[OF that] by (simp add: canTransitionKey_def)
    then show "currentKey (fst (setState f name reason flt)) = Some name \<and> name \<in> set STATES
          \<and> (\<forall>k. currentKey f = Some k \<longrightarrow> name \<in> set (allowedFrom k))"
      using setState_accepted(1,2)[OF a] st by simp
  qed
  have dead1: "currentKey f = Some DEAD \<and> name \<noteq> IDLE \<longrightarrow>
      \<not> snd (setState f name reason flt) \<and> currentKey (fst (setState f name reason flt)) = Some DEAD"
    using setState_from_DEAD[of f name reason flt] by simp
  have dead2: "currentKey f = Some DEAD \<longrightarrow>
      currentKey (fst (setState f name reason flt)) = Some DEAD
      \<or> currentKey (fst (setState f name reason flt)) = Some IDLE"
    using currentKey_setState_cases[of f name reason flt] dead1 by auto
  show ?thesis
    unfolding Let_def f_def[symmetric]
    using inv rej same init acc dead1 dead2 by blast
qed

theorem fsm_setState_transition_table_witness:
  "currentKey (runFSM setupFSM [(IDLE, [], NoThrow), (DEAD, ''damage'', NoThrow)]) = Some DEAD
   \<and> WALK \<noteq> DEAD \<and> WALK \<noteq> IDLE \<and> WALK \<notin> set (allowedFrom DEAD)
   \<and> \<not> snd (setState (runFSM setupFSM [(IDLE, [], NoThrow), (DEAD, ''damage'', NoThrow)]) WALK ''go'' NoThrow)
   \<and> currentKey (fst (setState (runFSM setupFSM [(IDLE, [], NoThrow), (DEAD, ''damage'', NoThrow)]) WALK ''go'' NoThrow)) = Some DEAD
   \<and> errorLog (fst (setState (runFSM setupFSM [(IDLE, [], NoThrow), (DEAD, ''damage'', NoThrow)]) WALK ''go'' NoThrow))
       = [InvalidTransition DEAD WALK ''go'']
   \<and> currentKey (runFSM setupFSM []) = None \<and> LEAP \<in> set STATES
   \<and> snd (setState (runFSM setupFSM []) LEAP [] NoThrow)
   \<and> currentKey (fst (setState (runFSM setupFSM []) LEAP [] NoThrow)) = Some LEAP
   \<and> currentKey (runFSM setupFSM [(IDLE, [], NoThrow)]) = Some IDLE
   \<and> \<not> snd (setState (runFSM setupFSM [(IDLE, [], NoThrow)]) IDLE [] NoThrow)"
  using fsm_setState_transition_table [of "[(IDLE, [], NoThrow), (DEAD, ''damage'', NoThrow)]" WALK "''go''" NoThrow]
        fsm_setState_transition_table [of "[]" LEAP "[]" NoThrow]
        fsm_setState_transition_table [of "[(IDLE, [], NoThrow)]" IDLE "[]" NoThrow]
  by (simp add: runFSM_def setState_def setupFSM_def STATES_def addState_def newFSM_def prevLabel_def
        canTransitionKey_def allowedFrom_def validTransitions_def pushHistory_def maxHistory_def key_defs)

lemma keys_distinct:
  "distinct [IDLE, WALK, CHARGE, LEAP, FALL, DASH, DEAD]"
  by (simp add: key_defs)

lemma key_neq [simp]:
  "IDLE \<noteq> WALK" "IDLE \<noteq> CHARGE" "IDLE \<noteq> LEAP" "IDLE \<noteq> FALL" "IDLE \<noteq> DASH" "IDLE \<noteq> DEAD"
  "WALK \<noteq> IDLE" "WALK \<noteq> CHARGE" "WALK \<noteq> LEAP" "WALK \<noteq> FALL" "WALK \<noteq> DASH" "WALK \<noteq> DEAD"
  "CHARGE \<noteq> IDLE" "CHARGE \<noteq> WALK" "CHARGE \<noteq> LEAP" "CHARGE \<noteq> FALL" "CHARGE \<noteq> DASH" "CHARGE \<noteq> DEAD"
  "LEAP \<noteq> IDLE" "LEAP \<noteq> WALK" "LEAP \<noteq> CHARGE" "LEAP \<noteq> FALL" "LEAP \<noteq> DASH" "LEAP \<noteq> DEAD"
  "FALL \<noteq> IDLE" "FALL \<noteq> WALK" "FALL \<noteq> CHARGE" "FALL \<noteq> LEAP" "FALL \<noteq> DASH" "FALL \<noteq> DEAD"
  "DASH \<noteq> IDLE" "DASH \<noteq> WALK" "DASH \<noteq> CHARGE" "DASH \<noteq> LEAP" "DASH \<noteq> FALL" "DASH \<noteq> DEAD"
  "DEAD \<noteq> IDLE" "DEAD \<noteq> WALK" "DEAD \<noteq> CHARGE" "DEAD \<noteq> LEAP" "DEAD \<noteq> FALL" "DEAD \<noteq> DASH"
  using keys_distinct by auto

lemma key_nonempty [simp]:
  "IDLE \<noteq> []" "WALK \<noteq> []" "CHARGE \<noteq> []" "LEAP \<noteq> []" "FALL \<noteq> []" "DASH \<noteq> []" "DEAD \<noteq> []"
  by (simp_all add: key_defs)

lemma allowedFrom_simps:
  "allowedFrom IDLE = [WALK, CHARGE, FALL, DASH, DEAD]"
  "allowedFrom WALK = [IDLE, CHARGE, FALL, DASH, DEAD]"
  "allowedFrom CHARGE = [LEAP, IDLE, FALL, DEAD]"
  "allowedFrom LEAP = [FALL, DASH, IDLE, DEAD]"
  "allowedFrom FALL = [IDLE, WALK, DASH, DEAD]"
  "allowedFrom DASH = [IDLE, WALK, LEAP, FALL, DEAD]"
  by (simp_all add: allowedFrom_def validTransitions_def)

section \<open>Properties of the character controller\<close>

lemma fsm_newController:
  "fsm (newController cfg) =
     \<lparr>states = STATES, currentKey = Some IDLE, stateHistory = [(IDLE, [])], errorLog = []\<rparr>"
  by (simp add: newController_def setState_def setupFSM_def STATES_def addState_def newFSM_def
        canTransitionKey_def pushHistory_def maxHistory_def)

lemma sprint_enterState [simp]: "sprint (enterState cfg c name prev ps) = sprint c"
  by (simp add: enterState_def ChargeState_enter_def DashState_enter_def executeDash_def Let_def)

lemma sprint_exitState [simp]: "sprint (exitState c) = sprint c"
  by (simp add: exitState_def)

lemma sprint_fsm_setState [simp]: "sprint (fsm_setState cfg c name ps) = sprint c"
  by (simp add: fsm_setState_def Let_def)

lemma fsm_enterState [simp]: "fsm (enterState cfg c name prev ps) = fsm c"
  by (simp add: enterState_def ChargeState_enter_def DashState_enter_def executeDash_def Let_def)

lemma fsm_exitState [simp]: "fsm (exitState c) = fsm c"
  by (simp add: exitState_def)

lemma fsm_setState_accepted:
  assumes "name \<in> set (states (fsm c))" "currentKey (fsm c) \<noteq> Some name"
    "canTransitionKey (currentKey (fsm c)) name"
  shows "fsm_setState cfg c name ps =
     enterState cfg ((exitState c)\<lparr>fsm := (fsm c)\<lparr>currentKey := Some name,
        stateHistory := pushHistory (stateHistory (fsm c)) (name, p_reason ps)\<rparr>\<rparr>)
       name (currentKey (fsm c)) ps"
  using assms by (simp add: fsm_setState_def setState_def)


lemma fsm_setState_same:
  assumes "name \<in> set (states (fsm c))" "currentKey (fsm c) = Some name"
  shows "fsm_setState cfg c name ps = c"
  using assms by (simp add: fsm_setState_def setState_def)

lemma currentKey_fsm_setState_accepted:
  assumes "name \<in> set (states (fsm c))" "canTransitionKey (currentKey (fsm c)) name"
  shows "currentKey (fsm (fsm_setState cfg c name ps)) = Some name"
proof (cases "currentKey (fsm c) = Some name")
  case True
  then show ?thesis using assms by (simp add: fsm_setState_same)
next
  case False
  then show ?thesis using assms by (simp add: fsm_setState_accepted)
qed

lemma DASH_in_STATES [simp]: "DASH \<in> set STATES" by (simp add: STATES_def)




lemmas ctl_eval_defs = CONFIG_def newController_def fsm_newController performDash_def
  consumeStamina_def fsm_setState_def setState_def STATES_def canTransitionKey_def
  allowedFrom_simps allowedFrom_DEAD pushHistory_def maxHistory_def prevLabel_def
  enterState_def exitState_def ChargeState_enter_def DashState_enter_def executeDash_def
  die_def noParams_def Let_def

subsection \<open>Energy stays within its bounds\<close>

lemma energyConsumed_fsm_setState:
  "0 \<le> energyConsumed (charge c) \<Longrightarrow> 0 \<le> energyConsumed (charge (fsm_setState cfg c name ps))"
  by (simp add: fsm_setState_def Let_def enterState_def ChargeState_enter_def DashState_enter_def
        executeDash_def exitState_def)

lemma energyInv_fsm_setState: "energyInv cfg c \<Longrightarrow> energyInv cfg (fsm_setState cfg c name ps)"
  by (simp add: energyInv_def energyConsumed_fsm_setState)

lemma energyInv_consumeStamina:
  "energyInv cfg c \<Longrightarrow> 0 \<le> amount \<Longrightarrow> energyInv cfg (consumeStamina c amount)"
  by (auto simp: energyInv_def consumeStamina_def)

lemma energyInv_updateSprint:
  "configOk cfg \<Longrightarrow> energyInv cfg c \<Longrightarrow> 0 \<le> dt \<Longrightarrow> energyInv cfg (updateSprint cfg c dt)"
  by (auto simp: energyInv_def updateSprint_def configOk_def Let_def min_def)

lemma energyInv_refundCharge:
  "configOk cfg \<Longrightarrow> energyInv cfg c \<Longrightarrow> energyInv cfg (refundCharge cfg c)"
  by (auto simp: energyInv_def refundCharge_def configOk_def min_def)

lemma energyInv_jumpVelocity:
  "energyInv cfg c \<Longrightarrow> energyInv cfg (jumpVelocity cfg c dx up dz ix iz)"
  by (auto simp: energyInv_def jumpVelocity_def Let_def split: option.splits platform_body.splits)

lemma energyInv_upd [simp]:
  "energyInv cfg (c\<lparr>energyInsufficient := e\<rparr>) = energyInv cfg c"
  "energyInv cfg (c\<lparr>chargePreview := p\<rparr>) = energyInv cfg c"
  by (simp_all add: energyInv_def)

lemma energyInv_launch:
  assumes "configOk cfg" "energyInv cfg c"
  shows "energyInv cfg (launch cfg c)"
proof -
  have cost: "0 \<le> quickJump_cost cfg" using assms(1) by (simp add: configOk_def)
  note r = energyInv_refundCharge[OF assms]
  show ?thesis
    unfolding launch_def Let_def
    by (auto intro!: energyInv_fsm_setState energyInv_jumpVelocity energyInv_consumeStamina
          simp: r cost assms)
qed

lemma energyInv_drainCharge:
  assumes "configOk cfg" "energyInv cfg c" "0 \<le> dt"
  shows "energyInv cfg (drainCharge cfg c dt)"
proof -
  have "0 \<le> chargeLeap_staminaDrainPerSecond cfg * dt"
    using assms by (simp add: configOk_def)
  then show ?thesis using assms(2)
    by (simp add: drainCharge_def energyInv_def consumeStamina_def Let_def min_def)
qed

lemma energyInv_cancelRefund:
  "configOk cfg \<Longrightarrow> energyInv cfg c \<Longrightarrow> energyInv cfg (cancelRefund cfg c)"
  by (simp add: cancelRefund_def energyInv_refundCharge)

lemma energyInv_ChargeState_update:
  assumes "configOk cfg" "energyInv cfg c" "0 \<le> dt"
  shows "energyInv cfg (ChargeState_update cfg c dt)"
  unfolding ChargeState_update_def Let_def
  using assms
  by (simp add: energyInv_fsm_setState energyInv_launch energyInv_cancelRefund energyInv_drainCharge)

lemma energyInv_performDash:
  assumes "energyInv cfg c"
  shows "energyInv cfg (fst (performDash cfg c))"
  using assms
  by (auto simp: performDash_def Let_def energyInv_def consumeStamina_def
      intro!: energyConsumed_fsm_setState)

lemma energyInv_ctlEvent:
  assumes "configOk cfg" "energyInv cfg c" "eventOk ev"
  shows "energyInv cfg (ctlEvent cfg c ev)"
  using assms
  by (cases ev)
     (auto simp: regenStep_def chargeStep_def energyInv_consumeStamina energyInv_updateSprint
        energyInv_ChargeState_update energyInv_performDash energyInv_fsm_setState
        energyInv_refundCharge, simp add: energyInv_def)

lemma energyInv_runCtl:
  assumes "configOk cfg"
  shows "energyInv cfg c \<Longrightarrow> list_all eventOk evs \<Longrightarrow> energyInv cfg (runCtl cfg c evs)"
  unfolding runCtl_def
  by (induction evs arbitrary: c) (auto simp: energyInv_ctlEvent[OF assms])

text \<open>
  C2: with a sane configuration (capacity, regeneration rate, drain rate and quick-jump
  cost not negative), from a controller whose energy is within \<open>[0, maxSprint]\<close>, after
  any sequence of \<open>consumeStamina\<close> calls with non-negative amounts, regeneration
  steps and charge steps (drain, cancellation refunds, launch with its refund and the
  quick-jump cost) with non-negative time steps, refunds, dashes, transitions and changes
  of what the controller senses, the energy is again within \<open>[0, maxSprint]\<close>. Besides,
  \<open>consumeStamina\<close> never leaves the energy below 0 whatever the amount, and a
  refund or a regeneration step never leaves it above the capacity.
\<close>

theorem energy_invariant:
  assumes "configOk cfg" and "energyInv cfg c" and "list_all eventOk evs"
  shows "0 \<le> sprint (runCtl cfg c evs) \<and> sprint (runCtl cfg c evs) \<le> player_maxSprint cfg
    \<and> energyInv cfg (runCtl cfg c evs)
    \<and> 0 \<le> sprint (consumeStamina c amount)
    \<and> sprint (refundCharge cfg c) \<le> player_maxSprint cfg
    \<and> sprint (updateSprint cfg c dt) \<le> player_maxSprint cfg"
proof -
  have "energyInv cfg (runCtl cfg c evs)"
    using assms by (rule energyInv_runCtl)
  moreover have "sprint (updateSprint cfg c dt) \<le> player_maxSprint cfg"
    using assms(2) by (auto simp: updateSprint_def Let_def energyInv_def min_def)
  ultimately show ?thesis
    by (simp add: energyInv_def consumeStamina_def refundCharge_def)
qed

theorem energy_invariant_witness:
  "configOk CONFIG \<and> energyInv CONFIG (newController CONFIG)
   \<and> list_all eventOk [EvConsumeStamina 30, EvSense True 0 1 (\<lambda>k. k = ''Space'') None,
         EvSetState CHARGE noParams, EvChargeStep (1 / 50), EvRefund, EvRegen 1, EvPerformDash]
   \<and> sprint (runCtl CONFIG (newController CONFIG)
        [EvConsumeStamina 30, EvSense True 0 1 (\<lambda>k. k = ''Space'') None,
         EvSetState CHARGE noParams, EvChargeStep (1 / 50), EvRefund]) = 70
   \<and> 0 \<le> sprint (runCtl CONFIG (newController CONFIG)
        [EvConsumeStamina 30, EvSense True 0 1 (\<lambda>k. k = ''Space'') None,
         EvSetState CHARGE noParams, EvChargeStep (1 / 50), EvRefund, EvRegen 1, EvPerformDash])
   \<and> sprint (runCtl CONFIG (newController CONFIG)
        [EvConsumeStamina 30, EvSense True 0 1 (\<lambda>k. k = ''Space'') None,
         EvSetState CHARGE noParams, EvChargeStep (1 / 50), EvRefund, EvRegen 1, EvPerformDash]) \<le> 100"
  using energy_invariant [of CONFIG "newController CONFIG"
        "[EvConsumeStamina 30, EvSense True 0 1 (\<lambda>k. k = ''Space'') None,
         EvSetState CHARGE noParams, EvChargeStep (1 / 50), EvRefund, EvRegen 1, EvPerformDash]"]
  by (simp add: configOk_def energyInv_def CONFIG_def runCtl_def fsm_newController
        consumeStamina_def regenStep_def chargeStep_def fsm_setState_def setState_def
        STATES_def canTransitionKey_def allowedFrom_simps pushHistory_def maxHistory_def
        enterState_def exitState_def ChargeState_enter_def ChargeState_update_def
        drainCharge_def refundCharge_def noParams_def Let_def newController_def)

subsection \<open>Dash\<close>

text \<open>
  C7: on entering the dash state the stamina used is the parameter clamped to
  \<open>[minDashEnergy, maxSprint]\<close> (the minimum when no parameter is given); the horizontal
  velocity is set to the model's forward direction, reversed when only the backward key
  is held, times \<open>staminaUsed * forceMultiplier\<close>; the vertical velocity is set to 0 when
  grounded and to \<open>max currentVy cap\<close> otherwise, so that in the air it is never lowered
  and never below the cap. An accepted transition to the dash state has this velocity.
\<close>

theorem dash_enter_velocity:
  "let used = max (gameplay_minDashEnergy cfg)
                (min (case p_staminaUsed ps of None \<Rightarrow> gameplay_minDashEnergy cfg | Some u \<Rightarrow> u)
                     (player_maxSprint cfg));
       force = used * airDash_forceMultiplier cfg;
       sgn = (if keys c ''KeyS'' \<and> \<not> keys c ''KeyW'' then - 1 else 1);
       c' = DashState_enter cfg c ps
   in dash_staminaUsed (dash c') = used
    \<and> vec_x (linvel c') = sgn * vec_x (modelForward c) * force
    \<and> vec_z (linvel c') = sgn * vec_z (modelForward c) * force
    \<and> vec_y (linvel c') =
        (if isGrounded c then 0 else max (vec_y (linvel c)) (airDash_downwardVelocityCap cfg))
    \<and> (\<not> isGrounded c \<longrightarrow> vec_y (linvel c) \<le> vec_y (linvel c')
          \<and> airDash_downwardVelocityCap cfg \<le> vec_y (linvel c'))
    \<and> (snd (setState (fsm c) DASH (p_reason ps) NoThrow) \<longrightarrow>
          linvel (fsm_setState cfg c DASH ps) = linvel c'
        \<and> currentKey (fsm (fsm_setState cfg c DASH ps)) = Some DASH)"
proof -
  have acc: "snd (setState (fsm c) DASH (p_reason ps) NoThrow) \<Longrightarrow>
      linvel (fsm_setState cfg c DASH ps) = linvel (DashState_enter cfg c ps)
      \<and> currentKey (fsm (fsm_setState cfg c DASH ps)) = Some DASH"
    by (auto simp: fsm_setState_def Let_def enterState_def DashState_enter_def executeDash_def
          exitState_def setState_accepted(1))
  show ?thesis
    unfolding Let_def
    using acc by (simp add: DashState_enter_def executeDash_def Let_def)
qed

theorem dash_enter_velocity_witness:
  "\<not> isGrounded ((newController CONFIG)\<lparr>linvel := \<lparr>vec_x = 1, vec_y = - 12, vec_z = 2\<rparr>,
        keys := (\<lambda>k. k = ''KeyS'')\<rparr>)
   \<and> snd (setState (fsm (newController CONFIG)) DASH ''dash_initiated'' NoThrow)
   \<and> linvel (fsm_setState CONFIG ((newController CONFIG)\<lparr>linvel := \<lparr>vec_x = 1, vec_y = - 12, vec_z = 2\<rparr>,
        keys := (\<lambda>k. k = ''KeyS'')\<rparr>) DASH \<lparr>p_reason = ''dash_initiated'', p_staminaUsed = Some 40\<rparr>)
       = \<lparr>vec_x = 0, vec_y = - 5, vec_z = - 12\<rparr>
   \<and> linvel (DashState_enter CONFIG ((newController CONFIG)\<lparr>isGrounded := True,
        linvel := \<lparr>vec_x = 1, vec_y = - 12, vec_z = 2\<rparr>\<rparr>) \<lparr>p_reason = [], p_staminaUsed = Some 40\<rparr>)
       = \<lparr>vec_x = 0, vec_y = 0, vec_z = 12\<rparr>"
  using dash_enter_velocity [of CONFIG "\<lparr>p_reason = ''dash_initiated'', p_staminaUsed = Some 40\<rparr>"
          "(newController CONFIG)\<lparr>linvel := \<lparr>vec_x = 1, vec_y = - 12, vec_z = 2\<rparr>,
             keys := (\<lambda>k. k = ''KeyS'')\<rparr>"]
  by (simp add: ctl_eval_defs)




subsection \<open>Quick jump and the refund of a tap\<close>

lemma linvel_fsm_setState:
  "name \<noteq> DASH \<Longrightarrow> linvel (fsm_setState cfg c name ps) = linvel c"
  by (simp add: fsm_setState_def Let_def enterState_def ChargeState_enter_def exitState_def)

lemma energyInsufficient_fsm_setState [simp]:
  "energyInsufficient (fsm_setState cfg c name ps) = energyInsufficient c"
  by (simp add: fsm_setState_def Let_def enterState_def ChargeState_enter_def DashState_enter_def
        executeDash_def exitState_def)

lemma states_fsm_setState [simp]: "states (fsm (fsm_setState cfg c name ps)) = states (fsm c)"
  by (simp add: fsm_setState_def Let_def)

lemma from_CHARGE:
  "canTransitionKey (Some CHARGE) LEAP" "canTransitionKey (Some CHARGE) IDLE"
  "canTransitionKey (Some CHARGE) FALL" "canTransitionKey (Some CHARGE) DEAD"
  by (simp_all add: canTransitionKey_def allowedFrom_simps)

lemma in_STATES [simp]:
  "IDLE \<in> set STATES" "WALK \<in> set STATES" "CHARGE \<in> set STATES" "LEAP \<in> set STATES"
  "FALL \<in> set STATES" "DEAD \<in> set STATES"
  by (simp_all add: STATES_def)

lemma leave_CHARGE:
  assumes "states (fsm c) = STATES" "currentKey (fsm c) = Some CHARGE"
    "name = LEAP \<or> name = IDLE \<or> name = FALL"
  shows "currentKey (fsm (fsm_setState cfg c name ps)) = Some name"
  using assms by (auto simp: currentKey_fsm_setState_accepted from_CHARGE)

lemma jumpVelocity_simps [simp]:
  "sprint (jumpVelocity cfg c dx up dz ix iz) = sprint c"
  "fsm (jumpVelocity cfg c dx up dz ix iz) = fsm c"
  "energyInsufficient (jumpVelocity cfg c dx up dz ix iz) = energyInsufficient c"
  "charge (jumpVelocity cfg c dx up dz ix iz) = charge c"
  by (simp_all add: jumpVelocity_def Let_def split: option.splits platform_body.splits)

lemma linvel_jumpVelocity:
  "linvel (jumpVelocity cfg c dx up dz ix iz) =
     \<lparr>vec_x = vec_x (linvel c) + dx,
      vec_y = (case (onFallingPlatform c, fallingPlatformBody c) of
                 (True, Some (LiveBody v m)) \<Rightarrow> v + up | _ \<Rightarrow> up),
      vec_z = vec_z (linvel c) + dz\<rparr>"
  by (simp add: jumpVelocity_def Let_def split: option.splits platform_body.splits bool.splits)

lemma refundCharge_simps [simp]:
  "fsm (refundCharge cfg c) = fsm c" "linvel (refundCharge cfg c) = linvel c"
  "energyInsufficient (refundCharge cfg c) = energyInsufficient c"
  "isGrounded (refundCharge cfg c) = isGrounded c"
  "onFallingPlatform (refundCharge cfg c) = onFallingPlatform c"
  "fallingPlatformBody (refundCharge cfg c) = fallingPlatformBody c"
  "charge (refundCharge cfg c) = charge c"
  by (simp_all add: refundCharge_def)

lemma consumeStamina_simps [simp]:
  "fsm (consumeStamina c a) = fsm c" "linvel (consumeStamina c a) = linvel c"
  "energyInsufficient (consumeStamina c a) = energyInsufficient c"
  "onFallingPlatform (consumeStamina c a) = onFallingPlatform c"
  "fallingPlatformBody (consumeStamina c a) = fallingPlatformBody c"
  "charge (consumeStamina c a) = charge c"
  "sprint (consumeStamina c a) = max 0 (sprint c - a)"
  by (simp_all add: consumeStamina_def)

lemma launch_tap_success:
  assumes "chargeTime (charge c) < quickJump_tapThreshold cfg"
    "quickJump_cost cfg \<le> sprint (refundCharge cfg c)"
  shows "launch cfg c = fsm_setState cfg
      (jumpVelocity cfg (consumeStamina (refundCharge cfg c) (quickJump_cost cfg))
         0 (quickJump_verticalForce cfg) 0 0 0) LEAP noParams"
  using assms by (simp add: launch_def Let_def)

lemma launch_tap_failure:
  assumes "chargeTime (charge c) < quickJump_tapThreshold cfg"
    "sprint (refundCharge cfg c) < quickJump_cost cfg"
  shows "launch cfg c = fsm_setState cfg
      ((refundCharge cfg c)\<lparr>energyInsufficient := energyInsufficient c @ [''Quick Jump'']\<rparr>)
      (if isGrounded c then IDLE else FALL) noParams"
  using assms by (simp add: launch_def Let_def)

lemmas charge_eval_defs = launch_def refundCharge_def jumpVelocity_def platformMass_def
  ChargeState_update_def drainCharge_def cancelRefund_def chargeStep_def regenStep_def
  updateSprint_def

text \<open>
  C3, as the code has it. The claim as stated fails for a player riding a falling crumble
  platform: the quick jump then sets the vertical velocity to the platform's vertical
  velocity plus the quick-jump force. Here the platform falls at 4 and the force is 11:
  the jump succeeds, the energy goes from the cost to 0, the state becomes leap, and the
  vertical velocity is 7.
\<close>

theorem quick_jump_on_falling_platform:
  "currentKey (fsm (fsm_setState CONFIG ((newController CONFIG)\<lparr>sprint := 5, isGrounded := True,
       onFallingPlatform := True, fallingPlatformBody := Some (LiveBody (- 4) None)\<rparr>) CHARGE noParams))
     = Some CHARGE
   \<and> chargeTime (charge (fsm_setState CONFIG ((newController CONFIG)\<lparr>sprint := 5, isGrounded := True,
       onFallingPlatform := True, fallingPlatformBody := Some (LiveBody (- 4) None)\<rparr>) CHARGE noParams))
     < quickJump_tapThreshold CONFIG
   \<and> sprint (refundCharge CONFIG (fsm_setState CONFIG ((newController CONFIG)\<lparr>sprint := 5, isGrounded := True,
       onFallingPlatform := True, fallingPlatformBody := Some (LiveBody (- 4) None)\<rparr>) CHARGE noParams))
     = quickJump_cost CONFIG
   \<and> sprint (launch CONFIG (fsm_setState CONFIG ((newController CONFIG)\<lparr>sprint := 5, isGrounded := True,
       onFallingPlatform := True, fallingPlatformBody := Some (LiveBody (- 4) None)\<rparr>) CHARGE noParams)) = 0
   \<and> currentKey (fsm (launch CONFIG (fsm_setState CONFIG ((newController CONFIG)\<lparr>sprint := 5, isGrounded := True,
       onFallingPlatform := True, fallingPlatformBody := Some (LiveBody (- 4) None)\<rparr>) CHARGE noParams)))
     = Some LEAP
   \<and> vec_y (linvel (launch CONFIG (fsm_setState CONFIG ((newController CONFIG)\<lparr>sprint := 5, isGrounded := True,
       onFallingPlatform := True, fallingPlatformBody := Some (LiveBody (- 4) None)\<rparr>) CHARGE noParams))) = 7
   \<and> vec_y (linvel (launch CONFIG (fsm_setState CONFIG ((newController CONFIG)\<lparr>sprint := 5, isGrounded := True,
       onFallingPlatform := True, fallingPlatformBody := Some (LiveBody (- 4) None)\<rparr>) CHARGE noParams)))
     \<noteq> quickJump_verticalForce CONFIG"
  by (simp add: ctl_eval_defs charge_eval_defs)

text \<open>
  C3 (amended): for a controller in the charge state whose charge time is below the tap
  threshold, \<open>launch\<close> first refunds the energy the charge drained. If the energy
  after the refund is at least the quick-jump cost, the cost is consumed (leaving 0 when
  the energy equals the cost), the horizontal velocity is unchanged, the vertical velocity
  is set to the quick-jump force (to the force plus the platform's vertical velocity when
  the player rides a falling platform with a live body), no insufficient-energy signal
  fires, and the state becomes leap. If it is below the cost, the energy stays what the
  refund made it, the velocity is unchanged, exactly one insufficient-energy signal is
  added, and the state becomes idle if grounded, fall otherwise.
\<close>

theorem quick_jump_tap:
  assumes "states (fsm c) = STATES" and "currentKey (fsm c) = Some CHARGE"
    and "chargeTime (charge c) < quickJump_tapThreshold cfg"
  shows "(quickJump_cost cfg \<le> sprint (refundCharge cfg c) \<longrightarrow>
            sprint (launch cfg c) = max 0 (sprint (refundCharge cfg c) - quickJump_cost cfg)
          \<and> (sprint (refundCharge cfg c) = quickJump_cost cfg \<longrightarrow> sprint (launch cfg c) = 0)
          \<and> vec_x (linvel (launch cfg c)) = vec_x (linvel c)
          \<and> vec_z (linvel (launch cfg c)) = vec_z (linvel c)
          \<and> vec_y (linvel (launch cfg c)) =
              (case (onFallingPlatform c, fallingPlatformBody c) of
                 (True, Some (LiveBody v m)) \<Rightarrow> v + quickJump_verticalForce cfg
               | _ \<Rightarrow> quickJump_verticalForce cfg)
          \<and> (\<not> onFallingPlatform c \<longrightarrow>
               vec_y (linvel (launch cfg c)) = quickJump_verticalForce cfg)
          \<and> energyInsufficient (launch cfg c) = energyInsufficient c
          \<and> currentKey (fsm (launch cfg c)) = Some LEAP)
    \<and> (sprint (refundCharge cfg c) < quickJump_cost cfg \<longrightarrow>
            sprint (launch cfg c) = sprint (refundCharge cfg c)
          \<and> linvel (launch cfg c) = linvel c
          \<and> energyInsufficient (launch cfg c) = energyInsufficient c @ [''Quick Jump'']
          \<and> currentKey (fsm (launch cfg c)) = Some (if isGrounded c then IDLE else FALL))"
proof (intro conjI impI)
  assume a: "quickJump_cost cfg \<le> sprint (refundCharge cfg c)"
  note l = launch_tap_success[OF assms(3) a]
  show "sprint (launch cfg c) = max 0 (sprint (refundCharge cfg c) - quickJump_cost cfg)"
    by (simp add: l)
  show "sprint (launch cfg c) = 0" if "sprint (refundCharge cfg c) = quickJump_cost cfg"
    using that by (simp add: l)
  show "vec_x (linvel (launch cfg c)) = vec_x (linvel c)"
    by (simp add: l linvel_fsm_setState linvel_jumpVelocity)
  show "vec_z (linvel (launch cfg c)) = vec_z (linvel c)"
    by (simp add: l linvel_fsm_setState linvel_jumpVelocity)
  show "vec_y (linvel (launch cfg c)) =
      (case (onFallingPlatform c, fallingPlatformBody c) of
         (True, Some (LiveBody v m)) \<Rightarrow> v + quickJump_verticalForce cfg
       | _ \<Rightarrow> quickJump_verticalForce cfg)"
    by (simp add: l linvel_fsm_setState linvel_jumpVelocity)
  show "vec_y (linvel (launch cfg c)) = quickJump_verticalForce cfg" if "\<not> onFallingPlatform c"
    using that by (simp add: l linvel_fsm_setState linvel_jumpVelocity)
  show "energyInsufficient (launch cfg c) = energyInsufficient c"
    by (simp add: l)
  show "currentKey (fsm (launch cfg c)) = Some LEAP"
    unfolding l by (rule leave_CHARGE) (simp_all add: assms)
next
  assume a: "sprint (refundCharge cfg c) < quickJump_cost cfg"
  note l = launch_tap_failure[OF assms(3) a]
  show "sprint (launch cfg c) = sprint (refundCharge cfg c)"
    by (simp add: l)
  show "linvel (launch cfg c) = linvel c"
    by (simp add: l linvel_fsm_setState)
  show "energyInsufficient (launch cfg c) = energyInsufficient c @ [''Quick Jump'']"
    by (simp add: l)
  show "currentKey (fsm (launch cfg c)) = Some (if isGrounded c then IDLE else FALL)"
    unfolding l by (rule leave_CHARGE) (simp_all add: assms)
qed

theorem quick_jump_tap_witness:
  "states (fsm (fsm_setState CONFIG ((newController CONFIG)\<lparr>sprint := 5, isGrounded := True\<rparr>) CHARGE noParams)) = STATES
   \<and> currentKey (fsm (fsm_setState CONFIG ((newController CONFIG)\<lparr>sprint := 5, isGrounded := True\<rparr>) CHARGE noParams)) = Some CHARGE
   \<and> chargeTime (charge (fsm_setState CONFIG ((newController CONFIG)\<lparr>sprint := 5, isGrounded := True\<rparr>) CHARGE noParams))
       < quickJump_tapThreshold CONFIG
   \<and> sprint (refundCharge CONFIG (fsm_setState CONFIG ((newController CONFIG)\<lparr>sprint := 5, isGrounded := True\<rparr>) CHARGE noParams))
       = quickJump_cost CONFIG
   \<and> \<not> onFallingPlatform (fsm_setState CONFIG ((newController CONFIG)\<lparr>sprint := 5, isGrounded := True\<rparr>) CHARGE noParams)
   \<and> sprint (launch CONFIG (fsm_setState CONFIG ((newController CONFIG)\<lparr>sprint := 5, isGrounded := True\<rparr>) CHARGE noParams)) = 0
   \<and> linvel (launch CONFIG (fsm_setState CONFIG ((newController CONFIG)\<lparr>sprint := 5, isGrounded := True\<rparr>) CHARGE noParams))
       = \<lparr>vec_x = 0, vec_y = 11, vec_z = 0\<rparr>
   \<and> currentKey (fsm (launch CONFIG (fsm_setState CONFIG ((newController CONFIG)\<lparr>sprint := 5, isGrounded := True\<rparr>) CHARGE noParams))) = Some LEAP
   \<and> energyInsufficient (launch CONFIG (fsm_setState CONFIG ((newController CONFIG)\<lparr>sprint := 5, isGrounded := True\<rparr>) CHARGE noParams)) = []
   \<and> currentKey (fsm ((fsm_setState CONFIG ((newController CONFIG)\<lparr>isGrounded := True\<rparr>) CHARGE noParams)\<lparr>sprint := 4\<rparr>)) = Some CHARGE
   \<and> sprint (refundCharge CONFIG ((fsm_setState CONFIG ((newController CONFIG)\<lparr>isGrounded := True\<rparr>) CHARGE noParams)\<lparr>sprint := 4\<rparr>))
       < quickJump_cost CONFIG
   \<and> sprint (launch CONFIG ((fsm_setState CONFIG ((newController CONFIG)\<lparr>isGrounded := True\<rparr>) CHARGE noParams)\<lparr>sprint := 4\<rparr>)) = 4
   \<and> linvel (launch CONFIG ((fsm_setState CONFIG ((newController CONFIG)\<lparr>isGrounded := True\<rparr>) CHARGE noParams)\<lparr>sprint := 4\<rparr>))
       = \<lparr>vec_x = 0, vec_y = 0, vec_z = 0\<rparr>
   \<and> energyInsufficient (launch CONFIG ((fsm_setState CONFIG ((newController CONFIG)\<lparr>isGrounded := True\<rparr>) CHARGE noParams)\<lparr>sprint := 4\<rparr>))
       = [''Quick Jump'']
   \<and> currentKey (fsm (launch CONFIG ((fsm_setState CONFIG ((newController CONFIG)\<lparr>isGrounded := True\<rparr>) CHARGE noParams)\<lparr>sprint := 4\<rparr>)))
       = Some IDLE"
  using quick_jump_tap [of "fsm_setState CONFIG ((newController CONFIG)\<lparr>sprint := 5, isGrounded := True\<rparr>) CHARGE noParams" CONFIG]
        quick_jump_tap [of "(fsm_setState CONFIG ((newController CONFIG)\<lparr>isGrounded := True\<rparr>) CHARGE noParams)\<lparr>sprint := 4\<rparr>" CONFIG]
  by (simp add: ctl_eval_defs charge_eval_defs)

lemma drainCharge_keeps:
  "chargeSum (drainCharge cfg c dt) = chargeSum c"
  "fsm (drainCharge cfg c dt) = fsm c"
  "keys (drainCharge cfg c dt) = keys c"
  "startEnergy (charge (drainCharge cfg c dt)) = startEnergy (charge c)"
  by (auto simp: drainCharge_def chargeSum_def Let_def consumeStamina_def min_def)


lemma cancelRefund_fsm [simp]: "fsm (cancelRefund cfg c) = fsm c"
  by (simp add: cancelRefund_def)


lemma states_launch [simp]: "states (fsm (launch cfg c)) = states (fsm c)"
  by (simp add: launch_def Let_def)

lemma states_ChargeState_update [simp]:
  "states (fsm (ChargeState_update cfg c dt)) = states (fsm c)"
  by (simp add: ChargeState_update_def Let_def drainCharge_keeps)





subsection \<open>Lava contact\<close>

lemma canTransition_DEAD:
  assumes "keyOk f" "states f = STATES" "currentKey f \<noteq> Some DEAD"
  shows "canTransitionKey (currentKey f) DEAD"
  using assms
  by (auto simp: keyOk_def STATES_def canTransitionKey_def allowedFrom_simps)

lemma die_simps:
  "sprint (die cfg c reason) = sprint c"
  "health (die cfg c reason) = health c"
  "linvel (die cfg c reason) = linvel c"
  "deathReasons (die cfg c reason) = deathReasons c @ [reason]"
  by (simp_all add: die_def fsm_setState_def Let_def enterState_def exitState_def)

lemma currentKey_die:
  assumes "keyOk (fsm c)" "states (fsm c) = STATES" "currentKey (fsm c) \<noteq> Some DEAD"
  shows "currentKey (fsm (die cfg c reason)) = Some DEAD"
  unfolding die_def
  by (rule currentKey_fsm_setState_accepted) (use assms canTransition_DEAD[of "fsm c"] in simp_all)

text \<open>
  C4, as the code has it. The claim as stated fails in its second half: the tolerance
  widens the hit zone, it does not narrow it. A capsule bottom within 0.05 of the lava
  surface, 0.03 above it or 0.03 below it, is a hit and kills the player.
\<close>

theorem lava_contact_with_body_in_band:
  "currentKey (fsm (newController CONFIG)) = Some IDLE
   \<and> playerBottom CONFIG ((newController CONFIG)\<lparr>translation := \<lparr>vec_x = 0, vec_y = - 4887 / 100, vec_z = 0\<rparr>\<rparr>)
       = lava_surfaceY CONFIG + 3 / 100
   \<and> currentKey (fsm (lavaContactCheck CONFIG
         \<lparr>inMainMenu = False, isCleaningUp = False, running = True, hasLavaCollider = True\<rparr>
         ((newController CONFIG)\<lparr>translation := \<lparr>vec_x = 0, vec_y = - 4887 / 100, vec_z = 0\<rparr>\<rparr>)))
       = Some DEAD
   \<and> deathReasons (lavaContactCheck CONFIG
         \<lparr>inMainMenu = False, isCleaningUp = False, running = True, hasLavaCollider = True\<rparr>
         ((newController CONFIG)\<lparr>translation := \<lparr>vec_x = 0, vec_y = - 4887 / 100, vec_z = 0\<rparr>\<rparr>))
       = [''lava'']
   \<and> playerBottom CONFIG ((newController CONFIG)\<lparr>translation := \<lparr>vec_x = 0, vec_y = - 4893 / 100, vec_z = 0\<rparr>\<rparr>)
       = lava_surfaceY CONFIG - 3 / 100
   \<and> currentKey (fsm (lavaContactCheck CONFIG
         \<lparr>inMainMenu = False, isCleaningUp = False, running = True, hasLavaCollider = True\<rparr>
         ((newController CONFIG)\<lparr>translation := \<lparr>vec_x = 0, vec_y = - 4893 / 100, vec_z = 0\<rparr>\<rparr>)))
       = Some DEAD"
  by (simp add: lavaContactCheck_def playerBottom_def ctl_eval_defs)

text \<open>
  C4 (amended): while the lava check is enabled (the game runs, is not cleaning up, the
  main menu is not shown, the lava collider exists and \<open>killOnContact\<close> is set) and
  the player is not dead, a capsule bottom at or below \<open>lavaSurfaceY + 0.05\<close>, in
  particular at \<open>lavaSurfaceY - 0.06\<close>, makes the player die at once with reason
  "lava"; a bottom more than 0.05 above the surface changes nothing. The check does not
  read the health (and has no cooldown): it commutes with any change of the health.
\<close>

theorem lava_contact_kills:
  assumes "\<not> inMainMenu gate" and "\<not> isCleaningUp gate" and "running gate"
    and "hasLavaCollider gate" and "lava_killOnContact cfg"
    and "keyOk (fsm c)" and "states (fsm c) = STATES" and "currentKey (fsm c) \<noteq> Some DEAD"
  shows "(playerBottom cfg c \<le> lava_surfaceY cfg + 5 / 100 \<longrightarrow>
            currentKey (fsm (lavaContactCheck cfg gate c)) = Some DEAD
          \<and> deathReasons (lavaContactCheck cfg gate c) = deathReasons c @ [''lava'']
          \<and> health (lavaContactCheck cfg gate c) = health c)
    \<and> (playerBottom cfg c = lava_surfaceY cfg - 6 / 100 \<longrightarrow>
            currentKey (fsm (lavaContactCheck cfg gate c)) = Some DEAD)
    \<and> (lava_surfaceY cfg + 5 / 100 < playerBottom cfg c \<longrightarrow> lavaContactCheck cfg gate c = c)
    \<and> lavaContactCheck cfg gate (c\<lparr>health := h\<rparr>) = (lavaContactCheck cfg gate c)\<lparr>health := h\<rparr>"
proof -
  have hit: "lavaContactCheck cfg gate c = die cfg c ''lava''"
    if "playerBottom cfg c \<le> lava_surfaceY cfg + 5 / 100"
    using that assms by (simp add: lavaContactCheck_def)
  have miss: "lavaContactCheck cfg gate c = c"
    if "lava_surfaceY cfg + 5 / 100 < playerBottom cfg c"
    using that assms by (simp add: lavaContactCheck_def)
  have dead: "currentKey (fsm (die cfg c ''lava'')) = Some DEAD"
    using assms by (simp add: currentKey_die)
  have indep: "lavaContactCheck cfg gate (c\<lparr>health := h\<rparr>) = (lavaContactCheck cfg gate c)\<lparr>health := h\<rparr>"
    by (simp add: lavaContactCheck_def playerBottom_def die_def fsm_setState_def Let_def
          enterState_def exitState_def ChargeState_enter_def DashState_enter_def executeDash_def)
  show ?thesis
    using hit miss dead indep by (auto simp: die_simps)
qed

theorem lava_contact_kills_witness:
  "\<not> inMainMenu \<lparr>inMainMenu = False, isCleaningUp = False, running = True, hasLavaCollider = True\<rparr>
   \<and> \<not> isCleaningUp \<lparr>inMainMenu = False, isCleaningUp = False, running = True, hasLavaCollider = True\<rparr>
   \<and> running \<lparr>inMainMenu = False, isCleaningUp = False, running = True, hasLavaCollider = True\<rparr>
   \<and> hasLavaCollider \<lparr>inMainMenu = False, isCleaningUp = False, running = True, hasLavaCollider = True\<rparr>
   \<and> lava_killOnContact CONFIG
   \<and> keyOk (fsm (newController CONFIG)) \<and> states (fsm (newController CONFIG)) = STATES
   \<and> currentKey (fsm (newController CONFIG)) \<noteq> Some DEAD
   \<and> playerBottom CONFIG ((newController CONFIG)\<lparr>translation := \<lparr>vec_x = 0, vec_y = - 4896 / 100, vec_z = 0\<rparr>\<rparr>)
       = lava_surfaceY CONFIG - 6 / 100
   \<and> currentKey (fsm (lavaContactCheck CONFIG
         \<lparr>inMainMenu = False, isCleaningUp = False, running = True, hasLavaCollider = True\<rparr>
         ((newController CONFIG)\<lparr>translation := \<lparr>vec_x = 0, vec_y = - 4896 / 100, vec_z = 0\<rparr>\<rparr>)))
       = Some DEAD
   \<and> deathReasons (lavaContactCheck CONFIG
         \<lparr>inMainMenu = False, isCleaningUp = False, running = True, hasLavaCollider = True\<rparr>
         ((newController CONFIG)\<lparr>translation := \<lparr>vec_x = 0, vec_y = - 4896 / 100, vec_z = 0\<rparr>\<rparr>))
       = [''lava'']
   \<and> lava_surfaceY CONFIG + 5 / 100
       < playerBottom CONFIG ((newController CONFIG)\<lparr>translation := \<lparr>vec_x = 0, vec_y = - 4884 / 100, vec_z = 0\<rparr>\<rparr>)
   \<and> currentKey (fsm (lavaContactCheck CONFIG
         \<lparr>inMainMenu = False, isCleaningUp = False, running = True, hasLavaCollider = True\<rparr>
         ((newController CONFIG)\<lparr>translation := \<lparr>vec_x = 0, vec_y = - 4884 / 100, vec_z = 0\<rparr>\<rparr>)))
       = Some IDLE"
  using lava_contact_kills [of "\<lparr>inMainMenu = False, isCleaningUp = False, running = True, hasLavaCollider = True\<rparr>"
          CONFIG "(newController CONFIG)\<lparr>translation := \<lparr>vec_x = 0, vec_y = - 4896 / 100, vec_z = 0\<rparr>\<rparr>"]
        lava_contact_kills [of "\<lparr>inMainMenu = False, isCleaningUp = False, running = True, hasLavaCollider = True\<rparr>"
          CONFIG "(newController CONFIG)\<lparr>translation := \<lparr>vec_x = 0, vec_y = - 4884 / 100, vec_z = 0\<rparr>\<rparr>"]
  by (simp add: lavaContactCheck_def playerBottom_def keyOk_def ctl_eval_defs)

section \<open>Properties of the track\<close>

subsection \<open>The window of active segments\<close>

lemma generateSegment_track:
  "trackSegments (generateSegment g prev rolls) = trackSegments g @ [fst (getSegment g)]"
  "playerSegmentIndex (generateSegment g prev rolls) = playerSegmentIndex g"
  by (simp_all add: generateSegment_def getSegment_def Let_def)

lemma generateLoop_step:
  "int (length (trackSegments g)) < n \<Longrightarrow>
   generateLoop g rolls n = generateLoop (generateSegment g (lastSegment g) rolls) rolls n"
  by (subst generateLoop.simps) simp

lemma generateLoop_done:
  "\<not> int (length (trackSegments g)) < n \<Longrightarrow> generateLoop g rolls n = g"
  by (subst generateLoop.simps) simp

lemma generateLoop_length:
  "int (length (trackSegments (generateLoop g rolls n))) = max (int (length (trackSegments g))) n"
proof (induction g rolls n rule: generateLoop.induct)
  case (1 g rolls n)
  show ?case
  proof (cases "int (length (trackSegments g)) < n")
    case True
    then show ?thesis
      using "1.IH" by (simp add: generateLoop_step generateSegment_track)
  next
    case False
    then show ?thesis by (simp add: generateLoop_done)
  qed
qed

lemma generateLoop_player [simp]:
  "playerSegmentIndex (generateLoop g rolls n) = playerSegmentIndex g"
proof (induction g rolls n rule: generateLoop.induct)
  case (1 g rolls n)
  show ?case
  proof (cases "int (length (trackSegments g)) < n")
    case True
    then show ?thesis
      using "1.IH" by (simp add: generateLoop_step generateSegment_track)
  next
    case False
    then show ?thesis by (simp add: generateLoop_done)
  qed
qed

lemma generateLoop_prefix:
  "\<exists>new. trackSegments (generateLoop g rolls n) = trackSegments g @ new"
proof (induction g rolls n rule: generateLoop.induct)
  case (1 g rolls n)
  show ?case
  proof (cases "int (length (trackSegments g)) < n")
    case True
    then show ?thesis
      using "1.IH" by (auto simp: generateLoop_step generateSegment_track)
  next
    case False
    then show ?thesis by (simp add: generateLoop_done)
  qed
qed

lemma despawnSegment_track [simp]:
  "trackSegments (despawnSegment g sid) = trackSegments g"
  "playerSegmentIndex (despawnSegment g sid) = playerSegmentIndex g"
  by (simp_all add: despawnSegment_def returnSegment_def clearTimeout_def Let_def split: option.splits)

lemma foldl_despawnSegment_track [simp]:
  "trackSegments (foldl despawnSegment g sids) = trackSegments g"
  "playerSegmentIndex (foldl despawnSegment g sids) = playerSegmentIndex g"
  by (induction sids arbitrary: g) simp_all

lemma despawnFront_track [simp]:
  "trackSegments (despawnFront g n) = drop n (trackSegments g)"
  "playerSegmentIndex (despawnFront g n) = playerSegmentIndex g"
  by (simp_all add: despawnFront_def)

lemma trackSegments_search [simp]:
  "trackSegments (case search of None \<Rightarrow> g
      | Some (px, pz) \<Rightarrow> g\<lparr>playerSegmentIndex := nearestSegment g px pz\<rparr>) = trackSegments g"
  by (simp split: option.splits prod.splits)

lemmas game_eval_defs = updateTrack_def initGame_def generateLoop_step generateLoop_done
  generateSegment_def getSegment_def lastSegment_def newMesh_def createSegment_def flatRolls_def
  despawnFront_def despawnSegment_def returnSegment_def resetSegment_def clearTimeout_def
  maxPoolSize_def Let_def

text \<open>
  C6: a call of \<open>updateTrack\<close> with the player body present, for non-negative
  look-ahead and keep-behind counts. With \<open>p\<close> the player's segment index after the
  search: generation only appends, and it stops exactly at the target, so the list after
  generation has \<open>max (old length) (p + ahead)\<close> segments and never more than the target
  through generation; then the first \<open>p - behind\<close> segments are despawned and the index
  is shifted, so that afterwards the index is \<open>min p behind\<close>, no slot of the list is
  more than \<open>behind\<close> slots behind the player, and the length minus the index is what
  it was after generation: the list has exactly \<open>index + ahead\<close> segments unless it was
  already longer than the target. Without a player body the call changes nothing.
\<close>

theorem updateTrack_window:
  assumes "ready" and "0 \<le> track_segmentsToGenerateAhead cfg"
    and "0 \<le> track_segmentsToKeepBehind cfg"
  shows "let g0 = (case search of None \<Rightarrow> g
                   | Some (px, pz) \<Rightarrow> g\<lparr>playerSegmentIndex := nearestSegment g px pz\<rparr>);
             p = playerSegmentIndex g0;
             ahead = track_segmentsToGenerateAhead cfg;
             behind = track_segmentsToKeepBehind cfg;
             g1 = generateLoop g0 rolls (p + ahead);
             g' = updateTrack cfg g ready search rolls
         in int (length (trackSegments g1)) = max (int (length (trackSegments g))) (p + ahead)
          \<and> (\<exists>new. trackSegments g1 = trackSegments g @ new)
          \<and> trackSegments g' = drop (nat (p - behind)) (trackSegments g1)
          \<and> playerSegmentIndex g' = min p behind
          \<and> playerSegmentIndex g' \<le> behind
          \<and> int (length (trackSegments g')) - playerSegmentIndex g'
              = max (int (length (trackSegments g))) (p + ahead) - p
          \<and> (int (length (trackSegments g)) \<le> p + ahead \<longrightarrow>
                int (length (trackSegments g')) = playerSegmentIndex g' + ahead)
          \<and> (\<forall>i < length (trackSegments g'). playerSegmentIndex g' - behind \<le> int i)
          \<and> updateTrack cfg g False search rolls = g"
proof -
  define g0 where "g0 = (case search of None \<Rightarrow> g
                   | Some (px, pz) \<Rightarrow> g\<lparr>playerSegmentIndex := nearestSegment g px pz\<rparr>)"
  define p where "p = playerSegmentIndex g0"
  define ahead where "ahead = track_segmentsToGenerateAhead cfg"
  define behind where "behind = track_segmentsToKeepBehind cfg"
  define g1 where "g1 = generateLoop g0 rolls (p + ahead)"
  define g' where "g' = updateTrack cfg g ready search rolls"
  have t0: "trackSegments g0 = trackSegments g" by (simp add: g0_def)
  have len1: "int (length (trackSegments g1)) = max (int (length (trackSegments g))) (p + ahead)"
    unfolding g1_def by (simp add: generateLoop_length t0)
  have pre: "\<exists>new. trackSegments g1 = trackSegments g @ new"
    unfolding g1_def using generateLoop_prefix[of g0 rolls "p + ahead"] by (simp add: t0)
  have p1: "playerSegmentIndex g1 = p" by (simp add: g1_def p_def)
  have g'_eq: "g' = (if p - behind > 0
                    then (despawnFront g1 (nat (p - behind)))\<lparr>playerSegmentIndex := p - (p - behind)\<rparr>
                    else g1)"
    using assms(1)
    by (simp add: g'_def updateTrack_def Let_def g0_def[symmetric] p_def[symmetric]
          ahead_def[symmetric] behind_def[symmetric] g1_def[symmetric] p1)
  have tr: "trackSegments g' = drop (nat (p - behind)) (trackSegments g1)"
    by (simp add: g'_eq)
  have pl: "playerSegmentIndex g' = min p behind"
    by (simp add: g'_eq p1 min_def)
  have ple: "playerSegmentIndex g' \<le> behind" by (simp add: pl)
  have ge: "int (nat (p - behind)) \<le> int (length (trackSegments g1))"
    using len1 assms(2,3) unfolding ahead_def behind_def by linarith
  have len': "int (length (trackSegments g')) = int (length (trackSegments g1)) - int (nat (p - behind))"
    unfolding tr length_drop using ge by linarith
  have diff: "int (length (trackSegments g')) - playerSegmentIndex g'
              = max (int (length (trackSegments g))) (p + ahead) - p"
    using len' len1 pl by (simp add: min_def)
  have exact: "int (length (trackSegments g)) \<le> p + ahead \<Longrightarrow>
                int (length (trackSegments g')) = playerSegmentIndex g' + ahead"
    using diff by simp
  have slots: "\<forall>i < length (trackSegments g'). playerSegmentIndex g' - behind \<le> int i"
    using ple by auto
  have idle: "updateTrack cfg g False search rolls = g"
    by (simp add: updateTrack_def)
  show ?thesis
    unfolding Let_def g0_def[symmetric] p_def[symmetric] ahead_def[symmetric] behind_def[symmetric]
      g1_def[symmetric] g'_def[symmetric]
    using len1 pre tr pl ple diff exact slots idle by blast
qed

theorem updateTrack_window_witness:
  "0 \<le> track_segmentsToGenerateAhead CONFIG \<and> 0 \<le> track_segmentsToKeepBehind CONFIG
   \<and> trackSegments (updateTrack CONFIG (initGame False 2) True None flatRolls) = [0, 1, 2, 3, 4, 5, 6, 7]
   \<and> playerSegmentIndex (updateTrack CONFIG (initGame False 2) True None flatRolls) = 0
   \<and> nearestSegment (updateTrack CONFIG (updateTrack CONFIG (initGame False 2) True None flatRolls)
          True (Some (0, 120)) flatRolls) 0 120 = 6
   \<and> int (length (trackSegments (updateTrack CONFIG (updateTrack CONFIG (initGame False 2) True None flatRolls)
          True (Some (0, 120)) flatRolls))) = 11
   \<and> int (length (trackSegments (updateTrack CONFIG (updateTrack CONFIG
          (updateTrack CONFIG (initGame False 2) True None flatRolls)
          True (Some (0, 120)) flatRolls) True (Some (0, 120)) flatRolls))) = 12
   \<and> playerSegmentIndex (updateTrack CONFIG (updateTrack CONFIG
          (updateTrack CONFIG (initGame False 2) True None flatRolls)
          True (Some (0, 120)) flatRolls) True (Some (0, 120)) flatRolls) = 4
   \<and> trackSegments (updateTrack CONFIG (updateTrack CONFIG
          (updateTrack CONFIG (initGame False 2) True None flatRolls)
          True (Some (0, 120)) flatRolls) True (Some (0, 120)) flatRolls)
        = [2, 3, 4, 5, 6, 7, 8, 9, 10, 11, 12, 13]"
proof -
  let ?g1 = "updateTrack CONFIG (initGame False 2) True None flatRolls"
  let ?g2 = "updateTrack CONFIG ?g1 True (Some (0, 120)) flatRolls"
  let ?g3 = "updateTrack CONFIG ?g2 True (Some (0, 120)) flatRolls"
  have cfg: "0 \<le> track_segmentsToGenerateAhead CONFIG" "0 \<le> track_segmentsToKeepBehind CONFIG"
    "track_segmentsToGenerateAhead CONFIG = 8" "track_segmentsToKeepBehind CONFIG = 4"
    by (simp_all add: CONFIG_def)
  have t1: "trackSegments ?g1 = [0, 1, 2, 3, 4, 5, 6, 7]" and p1: "playerSegmentIndex ?g1 = 0"
    by (simp_all add: game_eval_defs CONFIG_def)
  have n2: "nearestSegment ?g2 0 120 = 6" and l2: "int (length (trackSegments ?g2)) = 11"
    by (simp_all add: game_eval_defs CONFIG_def nearestSegment_def upt_conv_Cons)
  have t3: "trackSegments ?g3 = [2, 3, 4, 5, 6, 7, 8, 9, 10, 11, 12, 13]"
    by (simp add: game_eval_defs CONFIG_def nearestSegment_def upt_conv_Cons)
  have "int (length (trackSegments ?g3)) = 12 \<and> playerSegmentIndex ?g3 = 4"
    using updateTrack_window [where ready = True and cfg = CONFIG and search = "Some (0, 120)"
            and g = ?g2 and rolls = flatRolls] cfg n2 l2
    by (simp add: Let_def)
  then show ?thesis using cfg t1 p1 n2 l2 t3 by simp
qed

subsection \<open>Ground detection\<close>

text \<open>
  C9, as the code has it. The claim as stated fails: \<open>checkGrounded\<close> loops over the
  whole list of active segments. On the first eight segments, with the player's segment
  index 0 and the window \<open>[0, 4)\<close>, a hit on the body of the segment in slot 5 is resolved
  to that segment, which a search of the window does not find; and the result depends on
  the segments outside the window: without them there is no match.
\<close>

theorem ground_match_outside_window:
  "playerSegmentIndex (updateTrack CONFIG (initGame False 2) True None flatRolls) = 0
   \<and> trackSegments (updateTrack CONFIG (initGame False 2) True None flatRolls) = [0, 1, 2, 3, 4, 5, 6, 7]
   \<and> windowSlots (updateTrack CONFIG (initGame False 2) True None flatRolls) = [0, 1, 2, 3]
   \<and> rapierBody (segObj (updateTrack CONFIG (initGame False 2) True None flatRolls) 5) = Some 5
   \<and> matchGroundSegment (updateTrack CONFIG (initGame False 2) True None flatRolls) 5 = Some 5
   \<and> matchGroundSegment_window (updateTrack CONFIG (initGame False 2) True None flatRolls) 5 = None
   \<and> matchGroundSegment ((updateTrack CONFIG (initGame False 2) True None flatRolls)
        \<lparr>trackSegments := [0, 1, 2, 3]\<rparr>) 5 = None"
  by (simp add: game_eval_defs CONFIG_def matchGroundSegment_def matchGroundSegment_window_def
        windowSlots_def upt_conv_Cons)

text \<open>
  C9 (amended): ground detection resolves the segment the player stands on by scanning
  the whole list of active segments in order for the first one whose body has the handle
  of the body that was hit: a segment in any slot is found when no earlier segment has the
  handle, nothing is found when no segment has it, and the result does not depend on the
  player's last known segment index.
\<close>

theorem ground_match_full_scan:
  "(\<forall>i < length (trackSegments g).
       rapierBody (segObj g (trackSegments g ! i)) = Some h
       \<and> (\<forall>j < i. rapierBody (segObj g (trackSegments g ! j)) \<noteq> Some h)
       \<longrightarrow> matchGroundSegment g h = Some (trackSegments g ! i))
   \<and> ((\<forall>sid \<in> set (trackSegments g). rapierBody (segObj g sid) \<noteq> Some h)
       \<longrightarrow> matchGroundSegment g h = None)
   \<and> matchGroundSegment (g\<lparr>playerSegmentIndex := p\<rparr>) h = matchGroundSegment g h
   \<and> fst (checkGroundSegment g (Some h)) = matchGroundSegment g h"
proof -
  have a: "matchGroundSegment g h = Some (trackSegments g ! i)"
    if "i < length (trackSegments g)" "rapierBody (segObj g (trackSegments g ! i)) = Some h"
      "\<forall>j < i. rapierBody (segObj g (trackSegments g ! j)) \<noteq> Some h" for i
    unfolding matchGroundSegment_def find_Some_iff using that by blast
  have b: "matchGroundSegment g h = None"
    if "\<forall>sid \<in> set (trackSegments g). rapierBody (segObj g sid) \<noteq> Some h"
    unfolding matchGroundSegment_def find_None_iff using that by blast
  have c: "matchGroundSegment (g\<lparr>playerSegmentIndex := p\<rparr>) h = matchGroundSegment g h"
    by (simp add: matchGroundSegment_def)
  have d: "fst (checkGroundSegment g (Some h)) = matchGroundSegment g h"
    by (simp add: checkGroundSegment_def split: option.splits list.splits)
  show ?thesis
  proof (intro conjI allI impI)
    fix i
    assume "i < length (trackSegments g)"
      and "rapierBody (segObj g (trackSegments g ! i)) = Some h
       \<and> (\<forall>j < i. rapierBody (segObj g (trackSegments g ! j)) \<noteq> Some h)"
    then show "matchGroundSegment g h = Some (trackSegments g ! i)"
      using a[of i] by simp
  qed (simp_all add: b c d)
qed

theorem ground_match_full_scan_witness:
  "7 < length (trackSegments (updateTrack CONFIG (initGame False 2) True None flatRolls))
   \<and> rapierBody (segObj (updateTrack CONFIG (initGame False 2) True None flatRolls)
        (trackSegments (updateTrack CONFIG (initGame False 2) True None flatRolls) ! 7)) = Some 7
   \<and> matchGroundSegment (updateTrack CONFIG (initGame False 2) True None flatRolls) 7 = Some 7
   \<and> matchGroundSegment (updateTrack CONFIG (initGame False 2) True None flatRolls) 9 = None"
proof -
  let ?g = "updateTrack CONFIG (initGame False 2) True None flatRolls"
  let ?b = "\<lambda>sid. rapierBody (segObj ?g sid)"
  have t: "trackSegments ?g = [0, 1, 2, 3, 4, 5, 6, 7]"
    by (simp add: game_eval_defs CONFIG_def)
  have m: "map ?b [0, 1, 2, 3, 4, 5, 6, 7]
      = [Some 0, Some 1, Some 2, Some 3, Some 4, Some 5, Some 6, Some 7]"
    by (simp add: game_eval_defs CONFIG_def)
  have bs: "?b 0 = Some 0" "?b 1 = Some 1" "?b 2 = Some 2" "?b 3 = Some 3" "?b 4 = Some 4"
    "?b 5 = Some 5" "?b 6 = Some 6" "?b 7 = Some 7"
    using m by simp_all
  have l: "7 < length (trackSegments ?g)" unfolding t by simp
  have h7: "?b (trackSegments ?g ! 7) = Some 7"
    unfolding t by (simp add: bs)
  have e7: "\<forall>j < 7. ?b (trackSegments ?g ! j) \<noteq> Some 7"
  proof (intro allI impI)
    fix j :: nat
    assume "j < 7"
    then have "j = 0 \<or> j = 1 \<or> j = 2 \<or> j = 3 \<or> j = 4 \<or> j = 5 \<or> j = 6" by arith
    then show "?b (trackSegments ?g ! j) \<noteq> Some 7"
      unfolding t using bs by (elim disjE) simp_all
  qed
  have none: "\<forall>sid \<in> set (trackSegments ?g). ?b sid \<noteq> Some 9"
    unfolding t using bs by simp
  have t7: "trackSegments ?g ! 7 = 7" unfolding t by simp
  have "\<forall>i < length (trackSegments ?g).
       ?b (trackSegments ?g ! i) = Some 7 \<and> (\<forall>j < i. ?b (trackSegments ?g ! j) \<noteq> Some 7)
       \<longrightarrow> matchGroundSegment ?g 7 = Some (trackSegments ?g ! i)"
    using ground_match_full_scan [where g = ?g and h = 7] by (rule conjunct1)
  then have "matchGroundSegment ?g 7 = Some (trackSegments ?g ! 7)"
    using l h7 e7 by blast
  then have some: "matchGroundSegment ?g 7 = Some 7"
    unfolding t7 .
  show ?thesis
    using ground_match_full_scan [where g = ?g and h = 9] some h7 none l
    by blast
qed

end
